theory Spec2Isabelle
  imports Complex_Main "HOL-Library.AList"
begin

section \<open>JavaScript values\<close>

text \<open>
  The repository is a Node.js SEO checker. This development embeds its page-type
  classifier (\<^verbatim>\<open>page-type-analyzer.js\<close>), its structured-data recommender
  (\<^verbatim>\<open>structured-data-recommender.js\<close>) and the template filler of
  \<^verbatim>\<open>schema-templates.js\<close>.

  A JavaScript string is modelled by \<^typ>\<open>string\<close> holding its UTF-8 bytes. Searching
  for a well-formed pattern in a well-formed text finds the same occurrences on bytes as on
  UTF-16 code units, because no UTF-8 encoding of a character occurs inside the encoding
  of another one. The Japanese keywords of the tables therefore appear as byte lists.

  Exceptions are values: a function that can throw returns \<open>error + 'a\<close>.
\<close>

datatype error = TypeError

text \<open>
  Parsed JSON (and the object literals of the templates). An object is the list of its
  own enumerable entries in \<^verbatim>\<open>Object.entries\<close> order. Numbers only ever have
  their truthiness inspected, so integers suffice.
\<close>

datatype json =
    JUndefined
  | JNull
  | JBool bool
  | JNum int
  | JStr string
  | JArr "json list"
  | JObj "(string \<times> json) list"

text \<open>\<^verbatim>\<open>Boolean(v)\<close>.\<close>

fun truthy :: "json \<Rightarrow> bool" where
  "truthy JUndefined = False"
| "truthy JNull = False"
| "truthy (JBool b) = b"
| "truthy (JNum n) = (n \<noteq> 0)"
| "truthy (JStr s) = (s \<noteq> [])"
| "truthy (JArr xs) = True"
| "truthy (JObj kvs) = True"

definition isNullish :: "json \<Rightarrow> bool" where
  "isNullish v \<longleftrightarrow> v = JNull \<or> v = JUndefined"

text \<open>
  \<^verbatim>\<open>v[k]\<close> on a value that is neither null nor undefined, for the keys the code reads
  (\<^verbatim>\<open>jsonLd\<close>, \<^verbatim>\<open>data\<close>, \<^verbatim>\<open>@type\<close>): an own property of an object, and
  undefined on arrays and primitives.
\<close>

definition getProp :: "json \<Rightarrow> string \<Rightarrow> json" where
  "getProp v k =
     (case v of
        JObj kvs \<Rightarrow> (case map_of kvs k of Some x \<Rightarrow> x | None \<Rightarrow> JUndefined)
      | _ \<Rightarrow> JUndefined)"

text \<open>\<^verbatim>\<open>x || 0\<close> on a number that may be undefined.\<close>

definition orZero :: "rat option \<Rightarrow> rat" where
  "orZero x = (case x of None \<Rightarrow> 0 | Some v \<Rightarrow> v)"

subsection \<open>Strings\<close>

fun startsWith :: "string \<Rightarrow> string \<Rightarrow> bool" where
  "startsWith s [] = True"
| "startsWith [] (p # ps) = False"
| "startsWith (c # cs) (p # ps) = (c = p \<and> startsWith cs ps)"

text \<open>\<^verbatim>\<open>text.includes(pattern)\<close>.\<close>

fun str_includes :: "string \<Rightarrow> string \<Rightarrow> bool" where
  "str_includes [] p = (p = [])"
| "str_includes (c # cs) p = (startsWith (c # cs) p \<or> str_includes cs p)"

text \<open>
  \<^verbatim>\<open>(text.match(new RegExp(p, 'g')) || []).length\<close> for a pattern \<open>p\<close> without regular
  expression metacharacters: the number of occurrences found scanning from the left and
  resuming after each match. (The empty pattern matches once at every position.)
\<close>

function matchCount :: "string \<Rightarrow> string \<Rightarrow> nat" where
  "matchCount p [] = (if p = [] then 1 else 0)"
| "matchCount p (c # cs) =
     (if p = [] then 1 + matchCount p cs
      else if startsWith (c # cs) p then 1 + matchCount p (drop (length p) (c # cs))
      else matchCount p cs)"
  by pat_completeness auto
termination
  by (relation "measure (\<lambda>(p, t). length t)") auto

text \<open>
  \<^verbatim>\<open>toLowerCase()\<close> on the ASCII letters. The only cased letters of the signature
  tables are ASCII; bytes of other characters are left as they are.
\<close>

definition lowerChar :: "char \<Rightarrow> char" where
  "lowerChar c =
     (case map_of (zip ''ABCDEFGHIJKLMNOPQRSTUVWXYZ'' ''abcdefghijklmnopqrstuvwxyz'') c of
        Some l \<Rightarrow> l
      | None \<Rightarrow> c)"

definition toLowerCase :: "string \<Rightarrow> string" where
  "toLowerCase s = map lowerChar s"

text \<open>\<^verbatim>\<open>xs.join(sep)\<close>.\<close>

fun join :: "string list \<Rightarrow> string \<Rightarrow> string" where
  "join [] sep = []"
| "join [x] sep = x"
| "join (x # y # ys) sep = x @ sep @ join (y # ys) sep"

section \<open>PageTypeAnalyzer\<close>

datatype PageType =
  Article | Product | LocalBusiness | Recipe | Event | FAQ | HowTo | Review | JobPosting | Course

record PageSignature =
  sigKeywords :: "string list"
  urlPatterns :: "string list"
  titlePatterns :: "string list"
  contentPatterns :: "string list"

text \<open>\<^verbatim>\<open>this.patterns\<close>, one signature per page type.\<close>

fun patterns :: "PageType \<Rightarrow> PageSignature" where
  "patterns Article = \<lparr>
      sigKeywords = [
        \<comment> \<open>U+8A18 U+4E8B\<close>
        [CHR 0xE8, CHR 0xA8, CHR 0x98, CHR 0xE4, CHR 0xBA, CHR 0x8B],
        \<comment> \<open>U+30D6 U+30ED U+30B0\<close>
        [CHR 0xE3, CHR 0x83, CHR 0x96, CHR 0xE3, CHR 0x83, CHR 0xAD, CHR 0xE3, CHR 0x82, CHR 0xB0],
        \<comment> \<open>U+30CB U+30E5 U+30FC U+30B9\<close>
        [CHR 0xE3, CHR 0x83, CHR 0x8B, CHR 0xE3, CHR 0x83, CHR 0xA5, CHR 0xE3, CHR 0x83, CHR 0xBC,
         CHR 0xE3, CHR 0x82, CHR 0xB9],
        \<comment> \<open>U+6295 U+7A3F\<close>
        [CHR 0xE6, CHR 0x8A, CHR 0x95, CHR 0xE7, CHR 0xA8, CHR 0xBF],
        \<comment> \<open>U+30B3 U+30E9 U+30E0\<close>
        [CHR 0xE3, CHR 0x82, CHR 0xB3, CHR 0xE3, CHR 0x83, CHR 0xA9, CHR 0xE3, CHR 0x83, CHR 0xA0],
        \<comment> \<open>U+30EC U+30DD U+30FC U+30C8\<close>
        [CHR 0xE3, CHR 0x83, CHR 0xAC, CHR 0xE3, CHR 0x83, CHR 0x9D, CHR 0xE3, CHR 0x83, CHR 0xBC,
         CHR 0xE3, CHR 0x83, CHR 0x88],
        \<comment> \<open>U+89E3 U+8AAC\<close>
        [CHR 0xE8, CHR 0xA7, CHR 0xA3, CHR 0xE8, CHR 0xAA, CHR 0xAC]],
      urlPatterns = [
        ''/blog/'',
        ''/news/'',
        ''/article/'',
        ''/post/'',
        ''/column/''],
      titlePatterns = [
        \<comment> \<open>U+FF5E U+306B U+3064 U+3044 U+3066\<close>
        [CHR 0xEF, CHR 0xBD, CHR 0x9E, CHR 0xE3, CHR 0x81, CHR 0xAB, CHR 0xE3, CHR 0x81, CHR 0xA4,
         CHR 0xE3, CHR 0x81, CHR 0x84, CHR 0xE3, CHR 0x81, CHR 0xA6],
        \<comment> \<open>U+FF5E U+3068 U+306F\<close>
        [CHR 0xEF, CHR 0xBD, CHR 0x9E, CHR 0xE3, CHR 0x81, CHR 0xA8, CHR 0xE3, CHR 0x81, CHR 0xAF],
        \<comment> \<open>U+FF5E U+3092 U+89E3 U+8AAC\<close>
        [CHR 0xEF, CHR 0xBD, CHR 0x9E, CHR 0xE3, CHR 0x82, CHR 0x92, CHR 0xE8, CHR 0xA7, CHR 0xA3,
         CHR 0xE8, CHR 0xAA, CHR 0xAC],
        \<comment> \<open>U+FF5E U+306E U+307E U+3068 U+3081\<close>
        [CHR 0xEF, CHR 0xBD, CHR 0x9E, CHR 0xE3, CHR 0x81, CHR 0xAE, CHR 0xE3, CHR 0x81, CHR 0xBE,
         CHR 0xE3, CHR 0x81, CHR 0xA8, CHR 0xE3, CHR 0x82, CHR 0x81]],
      contentPatterns = [
        \<comment> \<open>U+516C U+958B U+65E5\<close>
        [CHR 0xE5, CHR 0x85, CHR 0xAC, CHR 0xE9, CHR 0x96, CHR 0x8B, CHR 0xE6, CHR 0x97, CHR 0xA5],
        \<comment> \<open>U+66F4 U+65B0 U+65E5\<close>
        [CHR 0xE6, CHR 0x9B, CHR 0xB4, CHR 0xE6, CHR 0x96, CHR 0xB0, CHR 0xE6, CHR 0x97, CHR 0xA5],
        \<comment> \<open>U+57F7 U+7B46 U+8005\<close>
        [CHR 0xE5, CHR 0x9F, CHR 0xB7, CHR 0xE7, CHR 0xAD, CHR 0x86, CHR 0xE8, CHR 0x80, CHR 0x85],
        \<comment> \<open>U+8457 U+8005\<close>
        [CHR 0xE8, CHR 0x91, CHR 0x97, CHR 0xE8, CHR 0x80, CHR 0x85],
        \<comment> \<open>U+30B7 U+30A7 U+30A2\<close>
        [CHR 0xE3, CHR 0x82, CHR 0xB7, CHR 0xE3, CHR 0x82, CHR 0xA7, CHR 0xE3, CHR 0x82, CHR 0xA2],
        \<comment> \<open>U+3044 U+3044 U+306D\<close>
        [CHR 0xE3, CHR 0x81, CHR 0x84, CHR 0xE3, CHR 0x81, CHR 0x84, CHR 0xE3, CHR 0x81,
         CHR 0xAD]] \<rparr>"
| "patterns Product = \<lparr>
      sigKeywords = [
        \<comment> \<open>U+5546 U+54C1\<close>
        [CHR 0xE5, CHR 0x95, CHR 0x86, CHR 0xE5, CHR 0x93, CHR 0x81],
        \<comment> \<open>U+88FD U+54C1\<close>
        [CHR 0xE8, CHR 0xA3, CHR 0xBD, CHR 0xE5, CHR 0x93, CHR 0x81],
        \<comment> \<open>U+4FA1 U+683C\<close>
        [CHR 0xE4, CHR 0xBE, CHR 0xA1, CHR 0xE6, CHR 0xA0, CHR 0xBC],
        \<comment> \<open>U+8CFC U+5165\<close>
        [CHR 0xE8, CHR 0xB3, CHR 0xBC, CHR 0xE5, CHR 0x85, CHR 0xA5],
        \<comment> \<open>U+5728 U+5EAB\<close>
        [CHR 0xE5, CHR 0x9C, CHR 0xA8, CHR 0xE5, CHR 0xBA, CHR 0xAB],
        \<comment> \<open>U+30EC U+30D3 U+30E5 U+30FC\<close>
        [CHR 0xE3, CHR 0x83, CHR 0xAC, CHR 0xE3, CHR 0x83, CHR 0x93, CHR 0xE3, CHR 0x83, CHR 0xA5,
         CHR 0xE3, CHR 0x83, CHR 0xBC],
        \<comment> \<open>U+8A55 U+4FA1\<close>
        [CHR 0xE8, CHR 0xA9, CHR 0x95, CHR 0xE4, CHR 0xBE, CHR 0xA1],
        \<comment> \<open>U+30AB U+30FC U+30C8\<close>
        [CHR 0xE3, CHR 0x82, CHR 0xAB, CHR 0xE3, CHR 0x83, CHR 0xBC, CHR 0xE3, CHR 0x83, CHR 0x88],
        \<comment> \<open>U+9001 U+6599\<close>
        [CHR 0xE9, CHR 0x80, CHR 0x81, CHR 0xE6, CHR 0x96, CHR 0x99]],
      urlPatterns = [
        ''/product/'',
        ''/item/'',
        ''/goods/'',
        ''/shop/'',
        ''/store/''],
      titlePatterns = [
        \<comment> \<open>U+FF5E U+3092 U+8CFC U+5165\<close>
        [CHR 0xEF, CHR 0xBD, CHR 0x9E, CHR 0xE3, CHR 0x82, CHR 0x92, CHR 0xE8, CHR 0xB3, CHR 0xBC,
         CHR 0xE5, CHR 0x85, CHR 0xA5],
        \<comment> \<open>U+FF5E U+306E U+4FA1 U+683C\<close>
        [CHR 0xEF, CHR 0xBD, CHR 0x9E, CHR 0xE3, CHR 0x81, CHR 0xAE, CHR 0xE4, CHR 0xBE, CHR 0xA1,
         CHR 0xE6, CHR 0xA0, CHR 0xBC],
        \<comment> \<open>U+FF5E U+306E U+30EC U+30D3 U+30E5 U+30FC\<close>
        [CHR 0xEF, CHR 0xBD, CHR 0x9E, CHR 0xE3, CHR 0x81, CHR 0xAE, CHR 0xE3, CHR 0x83, CHR 0xAC,
         CHR 0xE3, CHR 0x83, CHR 0x93, CHR 0xE3, CHR 0x83, CHR 0xA5, CHR 0xE3, CHR 0x83, CHR 0xBC],
        \<comment> \<open>U+4FA1 U+683C U+FF1A\<close>
        [CHR 0xE4, CHR 0xBE, CHR 0xA1, CHR 0xE6, CHR 0xA0, CHR 0xBC, CHR 0xEF, CHR 0xBC, CHR 0x9A],
        \<comment> \<open>U+FFE5\<close>
        [CHR 0xEF, CHR 0xBF, CHR 0xA5]],
      contentPatterns = [
        \<comment> \<open>U+4FA1 U+683C\<close>
        [CHR 0xE4, CHR 0xBE, CHR 0xA1, CHR 0xE6, CHR 0xA0, CHR 0xBC],
        \<comment> \<open>U+5728 U+5EAB\<close>
        [CHR 0xE5, CHR 0x9C, CHR 0xA8, CHR 0xE5, CHR 0xBA, CHR 0xAB],
        \<comment> \<open>U+30AB U+30FC U+30C8 U+306B U+5165 U+308C U+308B\<close>
        [CHR 0xE3, CHR 0x82, CHR 0xAB, CHR 0xE3, CHR 0x83, CHR 0xBC, CHR 0xE3, CHR 0x83, CHR 0x88,
         CHR 0xE3, CHR 0x81, CHR 0xAB, CHR 0xE5, CHR 0x85, CHR 0xA5, CHR 0xE3, CHR 0x82, CHR 0x8C,
         CHR 0xE3, CHR 0x82, CHR 0x8B],
        \<comment> \<open>U+8CFC U+5165 U+3059 U+308B\<close>
        [CHR 0xE8, CHR 0xB3, CHR 0xBC, CHR 0xE5, CHR 0x85, CHR 0xA5, CHR 0xE3, CHR 0x81, CHR 0x99,
         CHR 0xE3, CHR 0x82, CHR 0x8B],
        \<comment> \<open>U+9001 U+6599\<close>
        [CHR 0xE9, CHR 0x80, CHR 0x81, CHR 0xE6, CHR 0x96, CHR 0x99],
        \<comment> \<open>U+914D U+9001\<close>
        [CHR 0xE9, CHR 0x85, CHR 0x8D, CHR 0xE9, CHR 0x80, CHR 0x81],
        \<comment> \<open>U+4FDD U+8A3C\<close>
        [CHR 0xE4, CHR 0xBF, CHR 0x9D, CHR 0xE8, CHR 0xA8, CHR 0xBC]] \<rparr>"
| "patterns LocalBusiness = \<lparr>
      sigKeywords = [
        \<comment> \<open>U+5E97 U+8217\<close>
        [CHR 0xE5, CHR 0xBA, CHR 0x97, CHR 0xE8, CHR 0x88, CHR 0x97],
        \<comment> \<open>U+55B6 U+696D U+6642 U+9593\<close>
        [CHR 0xE5, CHR 0x96, CHR 0xB6, CHR 0xE6, CHR 0xA5, CHR 0xAD, CHR 0xE6, CHR 0x99, CHR 0x82,
         CHR 0xE9, CHR 0x96, CHR 0x93],
        \<comment> \<open>U+4F4F U+6240\<close>
        [CHR 0xE4, CHR 0xBD, CHR 0x8F, CHR 0xE6, CHR 0x89, CHR 0x80],
        \<comment> \<open>U+96FB U+8A71 U+756A U+53F7\<close>
        [CHR 0xE9, CHR 0x9B, CHR 0xBB, CHR 0xE8, CHR 0xA9, CHR 0xB1, CHR 0xE7, CHR 0x95, CHR 0xAA,
         CHR 0xE5, CHR 0x8F, CHR 0xB7],
        \<comment> \<open>U+30A2 U+30AF U+30BB U+30B9\<close>
        [CHR 0xE3, CHR 0x82, CHR 0xA2, CHR 0xE3, CHR 0x82, CHR 0xAF, CHR 0xE3, CHR 0x82, CHR 0xBB,
         CHR 0xE3, CHR 0x82, CHR 0xB9],
        \<comment> \<open>U+5730 U+56F3\<close>
        [CHR 0xE5, CHR 0x9C, CHR 0xB0, CHR 0xE5, CHR 0x9B, CHR 0xB3],
        \<comment> \<open>U+99D0 U+8ECA U+5834\<close>
        [CHR 0xE9, CHR 0xA7, CHR 0x90, CHR 0xE8, CHR 0xBB, CHR 0x8A, CHR 0xE5, CHR 0xA0, CHR 0xB4],
        \<comment> \<open>U+4E88 U+7D04\<close>
        [CHR 0xE4, CHR 0xBA, CHR 0x88, CHR 0xE7, CHR 0xB4, CHR 0x84]],
      urlPatterns = [
        ''/company/'',
        ''/about/'',
        ''/contact/'',
        ''/access/'',
        ''/shop/''],
      titlePatterns = [
        \<comment> \<open>U+4F1A U+793E U+6982 U+8981\<close>
        [CHR 0xE4, CHR 0xBC, CHR 0x9A, CHR 0xE7, CHR 0xA4, CHR 0xBE, CHR 0xE6, CHR 0xA6, CHR 0x82,
         CHR 0xE8, CHR 0xA6, CHR 0x81],
        \<comment> \<open>U+5E97 U+8217 U+60C5 U+5831\<close>
        [CHR 0xE5, CHR 0xBA, CHR 0x97, CHR 0xE8, CHR 0x88, CHR 0x97, CHR 0xE6, CHR 0x83, CHR 0x85,
         CHR 0xE5, CHR 0xA0, CHR 0xB1],
        \<comment> \<open>U+30A2 U+30AF U+30BB U+30B9\<close>
        [CHR 0xE3, CHR 0x82, CHR 0xA2, CHR 0xE3, CHR 0x82, CHR 0xAF, CHR 0xE3, CHR 0x82, CHR 0xBB,
         CHR 0xE3, CHR 0x82, CHR 0xB9],
        \<comment> \<open>U+55B6 U+696D U+6642 U+9593\<close>
        [CHR 0xE5, CHR 0x96, CHR 0xB6, CHR 0xE6, CHR 0xA5, CHR 0xAD, CHR 0xE6, CHR 0x99, CHR 0x82,
         CHR 0xE9, CHR 0x96, CHR 0x93],
        \<comment> \<open>U+FF5E U+5E97\<close>
        [CHR 0xEF, CHR 0xBD, CHR 0x9E, CHR 0xE5, CHR 0xBA, CHR 0x97]],
      contentPatterns = [
        \<comment> \<open>U+55B6 U+696D U+6642 U+9593\<close>
        [CHR 0xE5, CHR 0x96, CHR 0xB6, CHR 0xE6, CHR 0xA5, CHR 0xAD, CHR 0xE6, CHR 0x99, CHR 0x82,
         CHR 0xE9, CHR 0x96, CHR 0x93],
        \<comment> \<open>U+5B9A U+4F11 U+65E5\<close>
        [CHR 0xE5, CHR 0xAE, CHR 0x9A, CHR 0xE4, CHR 0xBC, CHR 0x91, CHR 0xE6, CHR 0x97, CHR 0xA5],
        \<comment> \<open>U+4F4F U+6240\<close>
        [CHR 0xE4, CHR 0xBD, CHR 0x8F, CHR 0xE6, CHR 0x89, CHR 0x80],
        \<comment> \<open>U+96FB U+8A71\<close>
        [CHR 0xE9, CHR 0x9B, CHR 0xBB, CHR 0xE8, CHR 0xA9, CHR 0xB1],
        ''TEL'',
        \<comment> \<open>U+5730 U+56F3\<close>
        [CHR 0xE5, CHR 0x9C, CHR 0xB0, CHR 0xE5, CHR 0x9B, CHR 0xB3],
        \<comment> \<open>U+30A2 U+30AF U+30BB U+30B9\<close>
        [CHR 0xE3, CHR 0x82, CHR 0xA2, CHR 0xE3, CHR 0x82, CHR 0xAF, CHR 0xE3, CHR 0x82, CHR 0xBB,
         CHR 0xE3, CHR 0x82, CHR 0xB9]] \<rparr>"
| "patterns Recipe = \<lparr>
      sigKeywords = [
        \<comment> \<open>U+30EC U+30B7 U+30D4\<close>
        [CHR 0xE3, CHR 0x83, CHR 0xAC, CHR 0xE3, CHR 0x82, CHR 0xB7, CHR 0xE3, CHR 0x83, CHR 0x94],
        \<comment> \<open>U+6599 U+7406\<close>
        [CHR 0xE6, CHR 0x96, CHR 0x99, CHR 0xE7, CHR 0x90, CHR 0x86],
        \<comment> \<open>U+6750 U+6599\<close>
        [CHR 0xE6, CHR 0x9D, CHR 0x90, CHR 0xE6, CHR 0x96, CHR 0x99],
        \<comment> \<open>U+4F5C U+308A U+65B9\<close>
        [CHR 0xE4, CHR 0xBD, CHR 0x9C, CHR 0xE3, CHR 0x82, CHR 0x8A, CHR 0xE6, CHR 0x96, CHR 0xB9],
        \<comment> \<open>U+8ABF U+7406\<close>
        [CHR 0xE8, CHR 0xAA, CHR 0xBF, CHR 0xE7, CHR 0x90, CHR 0x86],
        \<comment> \<open>U+624B U+9806\<close>
        [CHR 0xE6, CHR 0x89, CHR 0x8B, CHR 0xE9, CHR 0xA0, CHR 0x86],
        \<comment> \<open>U+5206 U+91CF\<close>
        [CHR 0xE5, CHR 0x88, CHR 0x86, CHR 0xE9, CHR 0x87, CHR 0x8F],
        \<comment> \<open>U+8ABF U+7406 U+6642 U+9593\<close>
        [CHR 0xE8, CHR 0xAA, CHR 0xBF, CHR 0xE7, CHR 0x90, CHR 0x86, CHR 0xE6, CHR 0x99, CHR 0x82,
         CHR 0xE9, CHR 0x96, CHR 0x93]],
      urlPatterns = [
        ''/recipe/'',
        ''/cooking/'',
        ''/food/''],
      titlePatterns = [
        \<comment> \<open>U+FF5E U+306E U+30EC U+30B7 U+30D4\<close>
        [CHR 0xEF, CHR 0xBD, CHR 0x9E, CHR 0xE3, CHR 0x81, CHR 0xAE, CHR 0xE3, CHR 0x83, CHR 0xAC,
         CHR 0xE3, CHR 0x82, CHR 0xB7, CHR 0xE3, CHR 0x83, CHR 0x94],
        \<comment> \<open>U+FF5E U+306E U+4F5C U+308A U+65B9\<close>
        [CHR 0xEF, CHR 0xBD, CHR 0x9E, CHR 0xE3, CHR 0x81, CHR 0xAE, CHR 0xE4, CHR 0xBD, CHR 0x9C,
         CHR 0xE3, CHR 0x82, CHR 0x8A, CHR 0xE6, CHR 0x96, CHR 0xB9],
        \<comment> \<open>U+7C21 U+5358\<close>
        [CHR 0xE7, CHR 0xB0, CHR 0xA1, CHR 0xE5, CHR 0x8D, CHR 0x98],
        \<comment> \<open>U+624B U+4F5C U+308A\<close>
        [CHR 0xE6, CHR 0x89, CHR 0x8B, CHR 0xE4, CHR 0xBD, CHR 0x9C, CHR 0xE3, CHR 0x82, CHR 0x8A]],
      contentPatterns = [
        \<comment> \<open>U+6750 U+6599\<close>
        [CHR 0xE6, CHR 0x9D, CHR 0x90, CHR 0xE6, CHR 0x96, CHR 0x99],
        \<comment> \<open>U+5206 U+91CF\<close>
        [CHR 0xE5, CHR 0x88, CHR 0x86, CHR 0xE9, CHR 0x87, CHR 0x8F],
        \<comment> \<open>U+624B U+9806\<close>
        [CHR 0xE6, CHR 0x89, CHR 0x8B, CHR 0xE9, CHR 0xA0, CHR 0x86],
        \<comment> \<open>U+8ABF U+7406 U+6642 U+9593\<close>
        [CHR 0xE8, CHR 0xAA, CHR 0xBF, CHR 0xE7, CHR 0x90, CHR 0x86, CHR 0xE6, CHR 0x99, CHR 0x82,
         CHR 0xE9, CHR 0x96, CHR 0x93],
        \<comment> \<open>U+4EBA U+524D\<close>
        [CHR 0xE4, CHR 0xBA, CHR 0xBA, CHR 0xE5, CHR 0x89, CHR 0x8D],
        \<comment> \<open>U+30AB U+30ED U+30EA U+30FC\<close>
        [CHR 0xE3, CHR 0x82, CHR 0xAB, CHR 0xE3, CHR 0x83, CHR 0xAD, CHR 0xE3, CHR 0x83, CHR 0xAA,
         CHR 0xE3, CHR 0x83, CHR 0xBC],
        \<comment> \<open>U+6804 U+990A\<close>
        [CHR 0xE6, CHR 0xA0, CHR 0x84, CHR 0xE9, CHR 0xA4, CHR 0x8A]] \<rparr>"
| "patterns Event = \<lparr>
      sigKeywords = [
        \<comment> \<open>U+30A4 U+30D9 U+30F3 U+30C8\<close>
        [CHR 0xE3, CHR 0x82, CHR 0xA4, CHR 0xE3, CHR 0x83, CHR 0x99, CHR 0xE3, CHR 0x83, CHR 0xB3,
         CHR 0xE3, CHR 0x83, CHR 0x88],
        \<comment> \<open>U+958B U+50AC\<close>
        [CHR 0xE9, CHR 0x96, CHR 0x8B, CHR 0xE5, CHR 0x82, CHR 0xAC],
        \<comment> \<open>U+65E5 U+6642\<close>
        [CHR 0xE6, CHR 0x97, CHR 0xA5, CHR 0xE6, CHR 0x99, CHR 0x82],
        \<comment> \<open>U+5834 U+6240\<close>
        [CHR 0xE5, CHR 0xA0, CHR 0xB4, CHR 0xE6, CHR 0x89, CHR 0x80],
        \<comment> \<open>U+53C2 U+52A0\<close>
        [CHR 0xE5, CHR 0x8F, CHR 0x82, CHR 0xE5, CHR 0x8A, CHR 0xA0],
        \<comment> \<open>U+30C1 U+30B1 U+30C3 U+30C8\<close>
        [CHR 0xE3, CHR 0x83, CHR 0x81, CHR 0xE3, CHR 0x82, CHR 0xB1, CHR 0xE3, CHR 0x83, CHR 0x83,
         CHR 0xE3, CHR 0x83, CHR 0x88],
        \<comment> \<open>U+4E88 U+7D04\<close>
        [CHR 0xE4, CHR 0xBA, CHR 0x88, CHR 0xE7, CHR 0xB4, CHR 0x84],
        \<comment> \<open>U+4F1A U+5834\<close>
        [CHR 0xE4, CHR 0xBC, CHR 0x9A, CHR 0xE5, CHR 0xA0, CHR 0xB4]],
      urlPatterns = [
        ''/event/'',
        ''/seminar/'',
        ''/conference/'',
        ''/workshop/''],
      titlePatterns = [
        \<comment> \<open>U+958B U+50AC U+306E U+304A U+77E5 U+3089 U+305B\<close>
        [CHR 0xE9, CHR 0x96, CHR 0x8B, CHR 0xE5, CHR 0x82, CHR 0xAC, CHR 0xE3, CHR 0x81, CHR 0xAE,
         CHR 0xE3, CHR 0x81, CHR 0x8A, CHR 0xE7, CHR 0x9F, CHR 0xA5, CHR 0xE3, CHR 0x82, CHR 0x89,
         CHR 0xE3, CHR 0x81, CHR 0x9B],
        \<comment> \<open>U+30A4 U+30D9 U+30F3 U+30C8 U+60C5 U+5831\<close>
        [CHR 0xE3, CHR 0x82, CHR 0xA4, CHR 0xE3, CHR 0x83, CHR 0x99, CHR 0xE3, CHR 0x83, CHR 0xB3,
         CHR 0xE3, CHR 0x83, CHR 0x88, CHR 0xE6, CHR 0x83, CHR 0x85, CHR 0xE5, CHR 0xA0, CHR 0xB1],
        \<comment> \<open>U+30BB U+30DF U+30CA U+30FC\<close>
        [CHR 0xE3, CHR 0x82, CHR 0xBB, CHR 0xE3, CHR 0x83, CHR 0x9F, CHR 0xE3, CHR 0x83, CHR 0x8A,
         CHR 0xE3, CHR 0x83, CHR 0xBC],
        \<comment> \<open>U+8B1B U+5EA7\<close>
        [CHR 0xE8, CHR 0xAC, CHR 0x9B, CHR 0xE5, CHR 0xBA, CHR 0xA7]],
      contentPatterns = [
        \<comment> \<open>U+958B U+50AC U+65E5\<close>
        [CHR 0xE9, CHR 0x96, CHR 0x8B, CHR 0xE5, CHR 0x82, CHR 0xAC, CHR 0xE6, CHR 0x97, CHR 0xA5],
        \<comment> \<open>U+958B U+50AC U+6642 U+9593\<close>
        [CHR 0xE9, CHR 0x96, CHR 0x8B, CHR 0xE5, CHR 0x82, CHR 0xAC, CHR 0xE6, CHR 0x99, CHR 0x82,
         CHR 0xE9, CHR 0x96, CHR 0x93],
        \<comment> \<open>U+4F1A U+5834\<close>
        [CHR 0xE4, CHR 0xBC, CHR 0x9A, CHR 0xE5, CHR 0xA0, CHR 0xB4],
        \<comment> \<open>U+53C2 U+52A0 U+8CBB\<close>
        [CHR 0xE5, CHR 0x8F, CHR 0x82, CHR 0xE5, CHR 0x8A, CHR 0xA0, CHR 0xE8, CHR 0xB2, CHR 0xBB],
        \<comment> \<open>U+5B9A U+54E1\<close>
        [CHR 0xE5, CHR 0xAE, CHR 0x9A, CHR 0xE5, CHR 0x93, CHR 0xA1],
        \<comment> \<open>U+304A U+7533 U+8FBC U+307F\<close>
        [CHR 0xE3, CHR 0x81, CHR 0x8A, CHR 0xE7, CHR 0x94, CHR 0xB3, CHR 0xE8, CHR 0xBE, CHR 0xBC,
         CHR 0xE3, CHR 0x81, CHR 0xBF]] \<rparr>"
| "patterns FAQ = \<lparr>
      sigKeywords = [
        \<comment> \<open>U+3088 U+304F U+3042 U+308B U+8CEA U+554F\<close>
        [CHR 0xE3, CHR 0x82, CHR 0x88, CHR 0xE3, CHR 0x81, CHR 0x8F, CHR 0xE3, CHR 0x81, CHR 0x82,
         CHR 0xE3, CHR 0x82, CHR 0x8B, CHR 0xE8, CHR 0xB3, CHR 0xAA, CHR 0xE5, CHR 0x95, CHR 0x8F],
        ''FAQ'',
        ''Q&A'',
        \<comment> \<open>U+8CEA U+554F\<close>
        [CHR 0xE8, CHR 0xB3, CHR 0xAA, CHR 0xE5, CHR 0x95, CHR 0x8F],
        \<comment> \<open>U+56DE U+7B54\<close>
        [CHR 0xE5, CHR 0x9B, CHR 0x9E, CHR 0xE7, CHR 0xAD, CHR 0x94],
        \<comment> \<open>U+30D8 U+30EB U+30D7\<close>
        [CHR 0xE3, CHR 0x83, CHR 0x98, CHR 0xE3, CHR 0x83, CHR 0xAB, CHR 0xE3, CHR 0x83, CHR 0x97],
        \<comment> \<open>U+30B5 U+30DD U+30FC U+30C8\<close>
        [CHR 0xE3, CHR 0x82, CHR 0xB5, CHR 0xE3, CHR 0x83, CHR 0x9D, CHR 0xE3, CHR 0x83, CHR 0xBC,
         CHR 0xE3, CHR 0x83, CHR 0x88]],
      urlPatterns = [
        ''/faq/'',
        ''/help/'',
        ''/support/'',
        ''/qa/''],
      titlePatterns = [
        \<comment> \<open>U+3088 U+304F U+3042 U+308B U+8CEA U+554F\<close>
        [CHR 0xE3, CHR 0x82, CHR 0x88, CHR 0xE3, CHR 0x81, CHR 0x8F, CHR 0xE3, CHR 0x81, CHR 0x82,
         CHR 0xE3, CHR 0x82, CHR 0x8B, CHR 0xE8, CHR 0xB3, CHR 0xAA, CHR 0xE5, CHR 0x95, CHR 0x8F],
        ''FAQ'',
        ''Q&A'',
        \<comment> \<open>U+30D8 U+30EB U+30D7\<close>
        [CHR 0xE3, CHR 0x83, CHR 0x98, CHR 0xE3, CHR 0x83, CHR 0xAB, CHR 0xE3, CHR 0x83, CHR 0x97]],
      contentPatterns = [
        ''Q:'',
        ''A:'',
        \<comment> \<open>U+8CEA U+554F U+FF1A\<close>
        [CHR 0xE8, CHR 0xB3, CHR 0xAA, CHR 0xE5, CHR 0x95, CHR 0x8F, CHR 0xEF, CHR 0xBC, CHR 0x9A],
        \<comment> \<open>U+56DE U+7B54 U+FF1A\<close>
        [CHR 0xE5, CHR 0x9B, CHR 0x9E, CHR 0xE7, CHR 0xAD, CHR 0x94, CHR 0xEF, CHR 0xBC, CHR 0x9A],
        \<comment> \<open>U+3088 U+304F U+3042 U+308B U+8CEA U+554F\<close>
        [CHR 0xE3, CHR 0x82, CHR 0x88, CHR 0xE3, CHR 0x81, CHR 0x8F, CHR 0xE3, CHR 0x81, CHR 0x82,
         CHR 0xE3, CHR 0x82, CHR 0x8B, CHR 0xE8, CHR 0xB3, CHR 0xAA, CHR 0xE5, CHR 0x95,
         CHR 0x8F]] \<rparr>"
| "patterns HowTo = \<lparr>
      sigKeywords = [
        \<comment> \<open>U+65B9 U+6CD5\<close>
        [CHR 0xE6, CHR 0x96, CHR 0xB9, CHR 0xE6, CHR 0xB3, CHR 0x95],
        \<comment> \<open>U+3084 U+308A U+65B9\<close>
        [CHR 0xE3, CHR 0x82, CHR 0x84, CHR 0xE3, CHR 0x82, CHR 0x8A, CHR 0xE6, CHR 0x96, CHR 0xB9],
        \<comment> \<open>U+624B U+9806\<close>
        [CHR 0xE6, CHR 0x89, CHR 0x8B, CHR 0xE9, CHR 0xA0, CHR 0x86],
        \<comment> \<open>U+30B9 U+30C6 U+30C3 U+30D7\<close>
        [CHR 0xE3, CHR 0x82, CHR 0xB9, CHR 0xE3, CHR 0x83, CHR 0x86, CHR 0xE3, CHR 0x83, CHR 0x83,
         CHR 0xE3, CHR 0x83, CHR 0x97],
        \<comment> \<open>U+30AC U+30A4 U+30C9\<close>
        [CHR 0xE3, CHR 0x82, CHR 0xAC, CHR 0xE3, CHR 0x82, CHR 0xA4, CHR 0xE3, CHR 0x83, CHR 0x89],
        \<comment> \<open>U+30C1 U+30E5 U+30FC U+30C8 U+30EA U+30A2 U+30EB\<close>
        [CHR 0xE3, CHR 0x83, CHR 0x81, CHR 0xE3, CHR 0x83, CHR 0xA5, CHR 0xE3, CHR 0x83, CHR 0xBC,
         CHR 0xE3, CHR 0x83, CHR 0x88, CHR 0xE3, CHR 0x83, CHR 0xAA, CHR 0xE3, CHR 0x82, CHR 0xA2,
         CHR 0xE3, CHR 0x83, CHR 0xAB],
        \<comment> \<open>U+4F7F U+3044 U+65B9\<close>
        [CHR 0xE4, CHR 0xBD, CHR 0xBF, CHR 0xE3, CHR 0x81, CHR 0x84, CHR 0xE6, CHR 0x96, CHR 0xB9]],
      urlPatterns = [
        ''/howto/'',
        ''/guide/'',
        ''/tutorial/'',
        ''/manual/''],
      titlePatterns = [
        \<comment> \<open>U+FF5E U+306E U+65B9 U+6CD5\<close>
        [CHR 0xEF, CHR 0xBD, CHR 0x9E, CHR 0xE3, CHR 0x81, CHR 0xAE, CHR 0xE6, CHR 0x96, CHR 0xB9,
         CHR 0xE6, CHR 0xB3, CHR 0x95],
        \<comment> \<open>U+FF5E U+306E U+3084 U+308A U+65B9\<close>
        [CHR 0xEF, CHR 0xBD, CHR 0x9E, CHR 0xE3, CHR 0x81, CHR 0xAE, CHR 0xE3, CHR 0x82, CHR 0x84,
         CHR 0xE3, CHR 0x82, CHR 0x8A, CHR 0xE6, CHR 0x96, CHR 0xB9],
        \<comment> \<open>U+FF5E U+30AC U+30A4 U+30C9\<close>
        [CHR 0xEF, CHR 0xBD, CHR 0x9E, CHR 0xE3, CHR 0x82, CHR 0xAC, CHR 0xE3, CHR 0x82, CHR 0xA4,
         CHR 0xE3, CHR 0x83, CHR 0x89],
        \<comment> \<open>U+30B9 U+30C6 U+30C3 U+30D7\<close>
        [CHR 0xE3, CHR 0x82, CHR 0xB9, CHR 0xE3, CHR 0x83, CHR 0x86, CHR 0xE3, CHR 0x83, CHR 0x83,
         CHR 0xE3, CHR 0x83, CHR 0x97],
        \<comment> \<open>U+624B U+9806\<close>
        [CHR 0xE6, CHR 0x89, CHR 0x8B, CHR 0xE9, CHR 0xA0, CHR 0x86]],
      contentPatterns = [
        \<comment> \<open>U+30B9 U+30C6 U+30C3 U+30D7\<close>
        [CHR 0xE3, CHR 0x82, CHR 0xB9, CHR 0xE3, CHR 0x83, CHR 0x86, CHR 0xE3, CHR 0x83, CHR 0x83,
         CHR 0xE3, CHR 0x83, CHR 0x97],
        \<comment> \<open>U+624B U+9806\<close>
        [CHR 0xE6, CHR 0x89, CHR 0x8B, CHR 0xE9, CHR 0xA0, CHR 0x86],
        \<comment> \<open>U+65B9 U+6CD5\<close>
        [CHR 0xE6, CHR 0x96, CHR 0xB9, CHR 0xE6, CHR 0xB3, CHR 0x95],
        ''STEP'',
        \<comment> \<open>U+307E U+305A\<close>
        [CHR 0xE3, CHR 0x81, CHR 0xBE, CHR 0xE3, CHR 0x81, CHR 0x9A],
        \<comment> \<open>U+6B21 U+306B\<close>
        [CHR 0xE6, CHR 0xAC, CHR 0xA1, CHR 0xE3, CHR 0x81, CHR 0xAB],
        \<comment> \<open>U+6700 U+5F8C U+306B\<close>
        [CHR 0xE6, CHR 0x9C, CHR 0x80, CHR 0xE5, CHR 0xBE, CHR 0x8C, CHR 0xE3, CHR 0x81,
         CHR 0xAB]] \<rparr>"
| "patterns Review = \<lparr>
      sigKeywords = [
        \<comment> \<open>U+30EC U+30D3 U+30E5 U+30FC\<close>
        [CHR 0xE3, CHR 0x83, CHR 0xAC, CHR 0xE3, CHR 0x83, CHR 0x93, CHR 0xE3, CHR 0x83, CHR 0xA5,
         CHR 0xE3, CHR 0x83, CHR 0xBC],
        \<comment> \<open>U+8A55 U+4FA1\<close>
        [CHR 0xE8, CHR 0xA9, CHR 0x95, CHR 0xE4, CHR 0xBE, CHR 0xA1],
        \<comment> \<open>U+53E3 U+30B3 U+30DF\<close>
        [CHR 0xE5, CHR 0x8F, CHR 0xA3, CHR 0xE3, CHR 0x82, CHR 0xB3, CHR 0xE3, CHR 0x83, CHR 0x9F],
        \<comment> \<open>U+611F U+60F3\<close>
        [CHR 0xE6, CHR 0x84, CHR 0x9F, CHR 0xE6, CHR 0x83, CHR 0xB3],
        \<comment> \<open>U+4F53 U+9A13 U+8AC7\<close>
        [CHR 0xE4, CHR 0xBD, CHR 0x93, CHR 0xE9, CHR 0xA8, CHR 0x93, CHR 0xE8, CHR 0xAB, CHR 0x87],
        \<comment> \<open>U+8A55 U+5224\<close>
        [CHR 0xE8, CHR 0xA9, CHR 0x95, CHR 0xE5, CHR 0x88, CHR 0xA4],
        \<comment> \<open>U+661F\<close>
        [CHR 0xE6, CHR 0x98, CHR 0x9F]],
      urlPatterns = [
        ''/review/'',
        ''/rating/'',
        ''/evaluation/''],
      titlePatterns = [
        \<comment> \<open>U+30EC U+30D3 U+30E5 U+30FC\<close>
        [CHR 0xE3, CHR 0x83, CHR 0xAC, CHR 0xE3, CHR 0x83, CHR 0x93, CHR 0xE3, CHR 0x83, CHR 0xA5,
         CHR 0xE3, CHR 0x83, CHR 0xBC],
        \<comment> \<open>U+8A55 U+4FA1\<close>
        [CHR 0xE8, CHR 0xA9, CHR 0x95, CHR 0xE4, CHR 0xBE, CHR 0xA1],
        \<comment> \<open>U+53E3 U+30B3 U+30DF\<close>
        [CHR 0xE5, CHR 0x8F, CHR 0xA3, CHR 0xE3, CHR 0x82, CHR 0xB3, CHR 0xE3, CHR 0x83, CHR 0x9F],
        \<comment> \<open>U+4F53 U+9A13 U+8AC7\<close>
        [CHR 0xE4, CHR 0xBD, CHR 0x93, CHR 0xE9, CHR 0xA8, CHR 0x93, CHR 0xE8, CHR 0xAB, CHR 0x87],
        \<comment> \<open>U+FF5E U+3092 U+8A66 U+3057 U+3066 U+307F U+305F\<close>
        [CHR 0xEF, CHR 0xBD, CHR 0x9E, CHR 0xE3, CHR 0x82, CHR 0x92, CHR 0xE8, CHR 0xA9, CHR 0xA6,
         CHR 0xE3, CHR 0x81, CHR 0x97, CHR 0xE3, CHR 0x81, CHR 0xA6, CHR 0xE3, CHR 0x81, CHR 0xBF,
         CHR 0xE3, CHR 0x81, CHR 0x9F]],
      contentPatterns = [
        \<comment> \<open>U+8A55 U+4FA1\<close>
        [CHR 0xE8, CHR 0xA9, CHR 0x95, CHR 0xE4, CHR 0xBE, CHR 0xA1],
        \<comment> \<open>U+2605\<close>
        [CHR 0xE2, CHR 0x98, CHR 0x85],
        \<comment> \<open>U+2606\<close>
        [CHR 0xE2, CHR 0x98, CHR 0x86],
        \<comment> \<open>U+661F\<close>
        [CHR 0xE6, CHR 0x98, CHR 0x9F],
        \<comment> \<open>U+70B9 U+6570\<close>
        [CHR 0xE7, CHR 0x82, CHR 0xB9, CHR 0xE6, CHR 0x95, CHR 0xB0],
        \<comment> \<open>U+304A U+3059 U+3059 U+3081\<close>
        [CHR 0xE3, CHR 0x81, CHR 0x8A, CHR 0xE3, CHR 0x81, CHR 0x99, CHR 0xE3, CHR 0x81, CHR 0x99,
         CHR 0xE3, CHR 0x82, CHR 0x81],
        \<comment> \<open>U+30E1 U+30EA U+30C3 U+30C8\<close>
        [CHR 0xE3, CHR 0x83, CHR 0xA1, CHR 0xE3, CHR 0x83, CHR 0xAA, CHR 0xE3, CHR 0x83, CHR 0x83,
         CHR 0xE3, CHR 0x83, CHR 0x88],
        \<comment> \<open>U+30C7 U+30E1 U+30EA U+30C3 U+30C8\<close>
        [CHR 0xE3, CHR 0x83, CHR 0x87, CHR 0xE3, CHR 0x83, CHR 0xA1, CHR 0xE3, CHR 0x83, CHR 0xAA,
         CHR 0xE3, CHR 0x83, CHR 0x83, CHR 0xE3, CHR 0x83, CHR 0x88]] \<rparr>"
| "patterns JobPosting = \<lparr>
      sigKeywords = [
        \<comment> \<open>U+6C42 U+4EBA\<close>
        [CHR 0xE6, CHR 0xB1, CHR 0x82, CHR 0xE4, CHR 0xBA, CHR 0xBA],
        \<comment> \<open>U+63A1 U+7528\<close>
        [CHR 0xE6, CHR 0x8E, CHR 0xA1, CHR 0xE7, CHR 0x94, CHR 0xA8],
        \<comment> \<open>U+52DF U+96C6\<close>
        [CHR 0xE5, CHR 0x8B, CHR 0x9F, CHR 0xE9, CHR 0x9B, CHR 0x86],
        \<comment> \<open>U+4ED5 U+4E8B\<close>
        [CHR 0xE4, CHR 0xBB, CHR 0x95, CHR 0xE4, CHR 0xBA, CHR 0x8B],
        \<comment> \<open>U+8EE2 U+8077\<close>
        [CHR 0xE8, CHR 0xBB, CHR 0xA2, CHR 0xE8, CHR 0x81, CHR 0xB7],
        \<comment> \<open>U+5C31 U+8077\<close>
        [CHR 0xE5, CHR 0xB0, CHR 0xB1, CHR 0xE8, CHR 0x81, CHR 0xB7],
        \<comment> \<open>U+7D66 U+4E0E\<close>
        [CHR 0xE7, CHR 0xB5, CHR 0xA6, CHR 0xE4, CHR 0xB8, CHR 0x8E],
        \<comment> \<open>U+52E4 U+52D9 U+5730\<close>
        [CHR 0xE5, CHR 0x8B, CHR 0xA4, CHR 0xE5, CHR 0x8B, CHR 0x99, CHR 0xE5, CHR 0x9C, CHR 0xB0]],
      urlPatterns = [
        ''/job/'',
        ''/career/'',
        ''/recruit/'',
        ''/hiring/''],
      titlePatterns = [
        \<comment> \<open>U+6C42 U+4EBA U+60C5 U+5831\<close>
        [CHR 0xE6, CHR 0xB1, CHR 0x82, CHR 0xE4, CHR 0xBA, CHR 0xBA, CHR 0xE6, CHR 0x83, CHR 0x85,
         CHR 0xE5, CHR 0xA0, CHR 0xB1],
        \<comment> \<open>U+63A1 U+7528 U+60C5 U+5831\<close>
        [CHR 0xE6, CHR 0x8E, CHR 0xA1, CHR 0xE7, CHR 0x94, CHR 0xA8, CHR 0xE6, CHR 0x83, CHR 0x85,
         CHR 0xE5, CHR 0xA0, CHR 0xB1],
        \<comment> \<open>U+52DF U+96C6 U+8981 U+9805\<close>
        [CHR 0xE5, CHR 0x8B, CHR 0x9F, CHR 0xE9, CHR 0x9B, CHR 0x86, CHR 0xE8, CHR 0xA6, CHR 0x81,
         CHR 0xE9, CHR 0xA0, CHR 0x85],
        \<comment> \<open>U+6B63 U+793E U+54E1\<close>
        [CHR 0xE6, CHR 0xAD, CHR 0xA3, CHR 0xE7, CHR 0xA4, CHR 0xBE, CHR 0xE5, CHR 0x93, CHR 0xA1],
        \<comment> \<open>U+30A2 U+30EB U+30D0 U+30A4 U+30C8\<close>
        [CHR 0xE3, CHR 0x82, CHR 0xA2, CHR 0xE3, CHR 0x83, CHR 0xAB, CHR 0xE3, CHR 0x83, CHR 0x90,
         CHR 0xE3, CHR 0x82, CHR 0xA4, CHR 0xE3, CHR 0x83, CHR 0x88]],
      contentPatterns = [
        \<comment> \<open>U+52DF U+96C6 U+8981 U+9805\<close>
        [CHR 0xE5, CHR 0x8B, CHR 0x9F, CHR 0xE9, CHR 0x9B, CHR 0x86, CHR 0xE8, CHR 0xA6, CHR 0x81,
         CHR 0xE9, CHR 0xA0, CHR 0x85],
        \<comment> \<open>U+7D66 U+4E0E\<close>
        [CHR 0xE7, CHR 0xB5, CHR 0xA6, CHR 0xE4, CHR 0xB8, CHR 0x8E],
        \<comment> \<open>U+52E4 U+52D9 U+5730\<close>
        [CHR 0xE5, CHR 0x8B, CHR 0xA4, CHR 0xE5, CHR 0x8B, CHR 0x99, CHR 0xE5, CHR 0x9C, CHR 0xB0],
        \<comment> \<open>U+52E4 U+52D9 U+6642 U+9593\<close>
        [CHR 0xE5, CHR 0x8B, CHR 0xA4, CHR 0xE5, CHR 0x8B, CHR 0x99, CHR 0xE6, CHR 0x99, CHR 0x82,
         CHR 0xE9, CHR 0x96, CHR 0x93],
        \<comment> \<open>U+5FDC U+52DF U+8CC7 U+683C\<close>
        [CHR 0xE5, CHR 0xBF, CHR 0x9C, CHR 0xE5, CHR 0x8B, CHR 0x9F, CHR 0xE8, CHR 0xB3, CHR 0x87,
         CHR 0xE6, CHR 0xA0, CHR 0xBC],
        \<comment> \<open>U+798F U+5229 U+539A U+751F\<close>
        [CHR 0xE7, CHR 0xA6, CHR 0x8F, CHR 0xE5, CHR 0x88, CHR 0xA9, CHR 0xE5, CHR 0x8E, CHR 0x9A,
         CHR 0xE7, CHR 0x94, CHR 0x9F]] \<rparr>"
| "patterns Course = \<lparr>
      sigKeywords = [
        \<comment> \<open>U+8B1B U+5EA7\<close>
        [CHR 0xE8, CHR 0xAC, CHR 0x9B, CHR 0xE5, CHR 0xBA, CHR 0xA7],
        \<comment> \<open>U+30B3 U+30FC U+30B9\<close>
        [CHR 0xE3, CHR 0x82, CHR 0xB3, CHR 0xE3, CHR 0x83, CHR 0xBC, CHR 0xE3, CHR 0x82, CHR 0xB9],
        \<comment> \<open>U+6388 U+696D\<close>
        [CHR 0xE6, CHR 0x8E, CHR 0x88, CHR 0xE6, CHR 0xA5, CHR 0xAD],
        \<comment> \<open>U+5B66 U+7FD2\<close>
        [CHR 0xE5, CHR 0xAD, CHR 0xA6, CHR 0xE7, CHR 0xBF, CHR 0x92],
        \<comment> \<open>U+6559 U+80B2\<close>
        [CHR 0xE6, CHR 0x95, CHR 0x99, CHR 0xE8, CHR 0x82, CHR 0xB2],
        \<comment> \<open>U+30B9 U+30AF U+30FC U+30EB\<close>
        [CHR 0xE3, CHR 0x82, CHR 0xB9, CHR 0xE3, CHR 0x82, CHR 0xAF, CHR 0xE3, CHR 0x83, CHR 0xBC,
         CHR 0xE3, CHR 0x83, CHR 0xAB],
        \<comment> \<open>U+7814 U+4FEE\<close>
        [CHR 0xE7, CHR 0xA0, CHR 0x94, CHR 0xE4, CHR 0xBF, CHR 0xAE],
        \<comment> \<open>U+30AB U+30EA U+30AD U+30E5 U+30E9 U+30E0\<close>
        [CHR 0xE3, CHR 0x82, CHR 0xAB, CHR 0xE3, CHR 0x83, CHR 0xAA, CHR 0xE3, CHR 0x82, CHR 0xAD,
         CHR 0xE3, CHR 0x83, CHR 0xA5, CHR 0xE3, CHR 0x83, CHR 0xA9, CHR 0xE3, CHR 0x83, CHR 0xA0]],
      urlPatterns = [
        ''/course/'',
        ''/class/'',
        ''/training/'',
        ''/education/''],
      titlePatterns = [
        \<comment> \<open>U+8B1B U+5EA7\<close>
        [CHR 0xE8, CHR 0xAC, CHR 0x9B, CHR 0xE5, CHR 0xBA, CHR 0xA7],
        \<comment> \<open>U+30B3 U+30FC U+30B9\<close>
        [CHR 0xE3, CHR 0x82, CHR 0xB3, CHR 0xE3, CHR 0x83, CHR 0xBC, CHR 0xE3, CHR 0x82, CHR 0xB9],
        \<comment> \<open>U+7814 U+4FEE\<close>
        [CHR 0xE7, CHR 0xA0, CHR 0x94, CHR 0xE4, CHR 0xBF, CHR 0xAE],
        \<comment> \<open>U+30B9 U+30AF U+30FC U+30EB\<close>
        [CHR 0xE3, CHR 0x82, CHR 0xB9, CHR 0xE3, CHR 0x82, CHR 0xAF, CHR 0xE3, CHR 0x83, CHR 0xBC,
         CHR 0xE3, CHR 0x83, CHR 0xAB],
        \<comment> \<open>U+FF5E U+3092 U+5B66 U+3076\<close>
        [CHR 0xEF, CHR 0xBD, CHR 0x9E, CHR 0xE3, CHR 0x82, CHR 0x92, CHR 0xE5, CHR 0xAD, CHR 0xA6,
         CHR 0xE3, CHR 0x81, CHR 0xB6]],
      contentPatterns = [
        \<comment> \<open>U+30AB U+30EA U+30AD U+30E5 U+30E9 U+30E0\<close>
        [CHR 0xE3, CHR 0x82, CHR 0xAB, CHR 0xE3, CHR 0x83, CHR 0xAA, CHR 0xE3, CHR 0x82, CHR 0xAD,
         CHR 0xE3, CHR 0x83, CHR 0xA5, CHR 0xE3, CHR 0x83, CHR 0xA9, CHR 0xE3, CHR 0x83, CHR 0xA0],
        \<comment> \<open>U+5B66 U+7FD2 U+5185 U+5BB9\<close>
        [CHR 0xE5, CHR 0xAD, CHR 0xA6, CHR 0xE7, CHR 0xBF, CHR 0x92, CHR 0xE5, CHR 0x86, CHR 0x85,
         CHR 0xE5, CHR 0xAE, CHR 0xB9],
        \<comment> \<open>U+671F U+9593\<close>
        [CHR 0xE6, CHR 0x9C, CHR 0x9F, CHR 0xE9, CHR 0x96, CHR 0x93],
        \<comment> \<open>U+53D7 U+8B1B U+6599\<close>
        [CHR 0xE5, CHR 0x8F, CHR 0x97, CHR 0xE8, CHR 0xAC, CHR 0x9B, CHR 0xE6, CHR 0x96, CHR 0x99],
        \<comment> \<open>U+8B1B U+5E2B\<close>
        [CHR 0xE8, CHR 0xAC, CHR 0x9B, CHR 0xE5, CHR 0xB8, CHR 0xAB],
        \<comment> \<open>U+8CC7 U+683C\<close>
        [CHR 0xE8, CHR 0xB3, CHR 0x87, CHR 0xE6, CHR 0xA0, CHR 0xBC]] \<rparr>"

text \<open>\<^verbatim>\<open>Object.keys(this.patterns)\<close>: the declaration order of the table.\<close>

definition pageTypes :: "PageType list" where
  "pageTypes = [Article, Product, LocalBusiness, Recipe, Event, FAQ, HowTo, Review, JobPosting, Course]"

text \<open>
  \<^verbatim>\<open>this.weights\<close>. Every score is a sum of natural numbers times these weights and of
  integer bonuses, hence a multiple of one half; double-precision arithmetic is exact on
  such values, so the scores are modelled as rationals.
\<close>

record Weights =
  w_title :: rat
  w_meta :: rat
  w_headings :: rat
  w_url :: rat
  w_content :: rat

definition weights :: Weights where
  "weights = \<lparr> w_title = 3, w_meta = 5 / 2, w_headings = 2, w_url = 2, w_content = 1 \<rparr>"

record SpecialElements =
  price :: bool
  review :: bool
  event :: bool
  recipe :: bool
  faq :: bool
  job :: bool
  course :: bool

text \<open>
  The result of \<^verbatim>\<open>extractPageData($, url)\<close>. The extraction itself queries the parsed
  document through cheerio and is not modelled; the classifier is a function of this
  record.
\<close>

record ExtractedPageData =
  title :: string
  metaDescription :: string
  headings :: "string list"
  url :: string
  bodyText :: string
  contentLength :: nat
  specialElements :: SpecialElements

definition countMatches :: "string \<Rightarrow> string list \<Rightarrow> nat" where
  "countMatches text kws =
     (if text = [] then 0
      else let lowerText = toLowerCase text
           in foldl (\<lambda>count keyword. count + matchCount (toLowerCase keyword) lowerText) 0 kws)"

definition countPatternMatches :: "string \<Rightarrow> string list \<Rightarrow> nat" where
  "countPatternMatches text pats =
     (if text = [] then 0
      else foldl (\<lambda>count pattern. if str_includes text pattern then count + 1 else count) 0 pats)"

definition calculateSingleTypeScore :: "PageType \<Rightarrow> ExtractedPageData \<Rightarrow> rat" where
  "calculateSingleTypeScore type pageData =
     (let pattern = patterns type;
          score = 0;
          score = score + of_nat (countMatches (title pageData) (sigKeywords pattern)) * w_title weights;
          score = score + of_nat (countPatternMatches (title pageData) (titlePatterns pattern)) * w_title weights;
          score = score + of_nat (countMatches (metaDescription pageData) (sigKeywords pattern)) * w_meta weights;
          headingsText = join (headings pageData) '' '';
          score = score + of_nat (countMatches headingsText (sigKeywords pattern)) * w_headings weights;
          score = score + of_nat (countPatternMatches (url pageData) (urlPatterns pattern)) * w_url weights;
          score = score + of_nat (countMatches (bodyText pageData) (sigKeywords pattern)) * w_content weights;
          score = score + of_nat (countMatches (bodyText pageData) (contentPatterns pattern)) * w_content weights
      in score)"

text \<open>
  The \<^verbatim>\<open>scores\<close> object: its entries in insertion order. Assigning to a key replaces
  the value of an existing entry in place and appends a new entry otherwise, which is
  \<^const>\<open>AList.update\<close>.
\<close>

type_synonym scores = "(PageType \<times> rat) list"

text \<open>\<^verbatim>\<open>scores.T = (scores.T || 0) + bonus\<close>.\<close>

definition addBonus :: "PageType \<Rightarrow> rat \<Rightarrow> scores \<Rightarrow> scores" where
  "addBonus t bonus sc = AList.update t (orZero (map_of sc t) + bonus) sc"

definition applySpecialElementBonus :: "scores \<Rightarrow> SpecialElements \<Rightarrow> scores" where
  "applySpecialElementBonus sc se =
     (let sc = (if price se then addBonus Product 10 sc else sc);
          sc = (if review se then addBonus Product 5 (addBonus Review 8 sc) else sc);
          sc = (if event se then addBonus Event 12 sc else sc);
          sc = (if recipe se then addBonus Recipe 15 sc else sc);
          sc = (if faq se then addBonus FAQ 15 sc else sc);
          sc = (if job se then addBonus JobPosting 12 sc else sc);
          sc = (if course se then addBonus Course 10 sc else sc)
      in sc)"

definition calculateTypeScores :: "ExtractedPageData \<Rightarrow> scores" where
  "calculateTypeScores pageData =
     applySpecialElementBonus
       (map (\<lambda>type. (type, calculateSingleTypeScore type pageData)) pageTypes)
       (specialElements pageData)"

text \<open>
  \<^verbatim>\<open>Object.entries(scores).sort(([,a], [,b]) => b - a)\<close>, then the first five type
  names. \<^verbatim>\<open>Array.prototype.sort\<close> is stable; so is \<^const>\<open>sort_key\<close>, here on the
  negated score.
\<close>

definition rankTypes :: "scores \<Rightarrow> PageType list" where
  "rankTypes sc = map fst (sort_key (\<lambda>(t, s). - s) sc)"

definition getTopTypes :: "scores \<Rightarrow> PageType list" where
  "getTopTypes sc = take 5 (rankTypes sc)"

text \<open>
  The classification. \<^verbatim>\<open>detectedTypes[0]\<close> is undefined on an empty array, so the
  primary type is an option. The \<^verbatim>\<open>analysisDetails\<close> of the source (the page data and
  the matched patterns, collected for display) are left out.
\<close>

record ClassificationResult =
  primaryType :: "PageType option"
  secondaryTypes :: "PageType list"
  confidence :: rat
  allScores :: scores

text \<open>
  \<^verbatim>\<open>analyzePage($, url)\<close>. Its argument here is the outcome of the first statement of
  the \<^verbatim>\<open>try\<close> block, \<^verbatim>\<open>extractPageData($, url)\<close>: the extracted record, or the
  exception thrown. Nothing after the extraction throws, and the \<^verbatim>\<open>catch\<close> block
  returns the default result.
\<close>

definition analyzePage :: "error + ExtractedPageData \<Rightarrow> ClassificationResult" where
  "analyzePage extracted =
     (case extracted of
        Inr pageData \<Rightarrow>
          (let typeScores = calculateTypeScores pageData;
               detectedTypes = getTopTypes typeScores;
               first = (case detectedTypes of [] \<Rightarrow> None | t # ts \<Rightarrow> Some t)
           in \<lparr> primaryType = first,
                secondaryTypes = take 2 (drop 1 detectedTypes),
                confidence = orZero (case first of None \<Rightarrow> None | Some t \<Rightarrow> map_of typeScores t),
                allScores = typeScores \<rparr>)
      | Inl err \<Rightarrow>
          \<lparr> primaryType = Some Article, secondaryTypes = [], confidence = 0, allScores = [] \<rparr>)"

section \<open>StructuredDataRecommender\<close>

record SchemaTiers =
  primary :: "string list"
  secondary :: "string list"
  optional :: "string list"

text \<open>\<^verbatim>\<open>this.recommendations\<close>: the schema names recommended for each page type.\<close>

definition recommendations :: "(string \<times> SchemaTiers) list" where
  "recommendations = [
     (''Article'', \<lparr> primary = [''Article'', ''NewsArticle'', ''BlogPosting''],
                     secondary = [''Organization'', ''Person'', ''BreadcrumbList''],
                     optional = [''Comment'', ''Rating'', ''Review''] \<rparr>),
     (''Product'', \<lparr> primary = [''Product''],
                     secondary = [''Organization'', ''Offer'', ''Review''],
                     optional = [''AggregateRating'', ''Brand'', ''BreadcrumbList''] \<rparr>),
     (''LocalBusiness'', \<lparr> primary = [''LocalBusiness''],
                     secondary = [''Organization'', ''PostalAddress'', ''ContactPoint''],
                     optional = [''OpeningHoursSpecification'', ''GeoCoordinates'', ''Review''] \<rparr>),
     (''Recipe'', \<lparr> primary = [''Recipe''],
                     secondary = [''Person'', ''Organization'', ''NutritionInformation''],
                     optional = [''AggregateRating'', ''Review'', ''Video''] \<rparr>),
     (''Event'', \<lparr> primary = [''Event''],
                     secondary = [''Place'', ''Organization'', ''Offer''],
                     optional = [''Person'', ''PostalAddress'', ''VirtualLocation''] \<rparr>),
     (''FAQ'', \<lparr> primary = [''FAQPage''],
                     secondary = [''Question'', ''Answer''],
                     optional = [''Organization'', ''BreadcrumbList''] \<rparr>),
     (''HowTo'', \<lparr> primary = [''HowTo''],
                     secondary = [''HowToStep'', ''HowToSupply'', ''HowToTool''],
                     optional = [''Person'', ''Organization'', ''Video''] \<rparr>),
     (''Review'', \<lparr> primary = [''Review''],
                     secondary = [''Product'', ''Organization'', ''Rating''],
                     optional = [''Person'', ''AggregateRating'', ''CreativeWork''] \<rparr>),
     (''JobPosting'', \<lparr> primary = [''JobPosting''],
                     secondary = [''Organization'', ''Place''],
                     optional = [''PostalAddress'', ''MonetaryAmount'', ''EducationalOccupationalCredential''] \<rparr>),
     (''Course'', \<lparr> primary = [''Course'', ''EducationEvent''],
                     secondary = [''Organization'', ''Person'', ''Place''],
                     optional = [''AggregateRating'', ''Review'', ''Offer''] \<rparr>)]"

text \<open>
  The property names every object inherits from \<^verbatim>\<open>Object.prototype\<close>. Reading one of
  them from the table yields a truthy value without tier lists, so the fallback to the
  Article entry does not apply and each \<^verbatim>\<open>|| []\<close> does.
\<close>

definition objectPrototypeKeys :: "string list" where
  "objectPrototypeKeys = [''constructor'', ''__defineGetter__'', ''__defineSetter__'',
     ''hasOwnProperty'', ''__lookupGetter__'', ''__lookupSetter__'', ''isPrototypeOf'',
     ''propertyIsEnumerable'', ''toString'', ''valueOf'', ''__proto__'', ''toLocaleString'']"

definition articleTiers :: SchemaTiers where
  "articleTiers = \<lparr> primary = [''Article'', ''NewsArticle'', ''BlogPosting''],
                     secondary = [''Organization'', ''Person'', ''BreadcrumbList''],
                     optional = [''Comment'', ''Rating'', ''Review''] \<rparr>"

definition getBaseRecommendations :: "string \<Rightarrow> SchemaTiers" where
  "getBaseRecommendations pageType =
     (case map_of recommendations pageType of
        Some recommendation \<Rightarrow> recommendation
      | None \<Rightarrow>
          if pageType \<in> set objectPrototypeKeys
          then \<lparr> primary = [], secondary = [], optional = [] \<rparr>
          else articleTiers)"

text \<open>
  One element of \<^verbatim>\<open>existingSchemas.jsonLd.map(...)\<close>:
  \<^verbatim>\<open>Array.isArray(schema.data?.['@type']) ? schema.data['@type'][0] : schema.data?.['@type']\<close>.
  Reading \<^verbatim>\<open>data\<close> from null or undefined throws.
\<close>

definition entryType :: "json \<Rightarrow> error + json" where
  "entryType schema =
     (if isNullish schema then Inl TypeError
      else let data = getProp schema ''data'';
               ty = (if isNullish data then JUndefined else getProp data ''@type'')
           in Inr (case ty of
                     JArr xs \<Rightarrow> (case xs of [] \<Rightarrow> JUndefined | x # rest \<Rightarrow> x)
                   | _ \<Rightarrow> ty))"

fun mapEntries :: "json list \<Rightarrow> error + json list" where
  "mapEntries [] = Inr []"
| "mapEntries (schema # rest) =
     (case entryType schema of
        Inl err \<Rightarrow> Inl err
      | Inr t \<Rightarrow> (case mapEntries rest of Inl err \<Rightarrow> Inl err | Inr ts \<Rightarrow> Inr (t # ts)))"

text \<open>
  The elements of the set \<^verbatim>\<open>existing\<close>:
  \<^verbatim>\<open>existingSchemas.jsonLd?.map(...).filter(Boolean) || []\<close>. The optional chain yields
  undefined when \<^verbatim>\<open>jsonLd\<close> is null or undefined; any other value that is not an array
  has no \<^verbatim>\<open>map\<close> method.
\<close>

definition existingTypes :: "json \<Rightarrow> error + json list" where
  "existingTypes existingSchemas =
     (if isNullish existingSchemas then Inl TypeError
      else case getProp existingSchemas ''jsonLd'' of
             JUndefined \<Rightarrow> Inr []
           | JNull \<Rightarrow> Inr []
           | JArr entries \<Rightarrow>
               (case mapEntries entries of
                  Inl err \<Rightarrow> Inl err
                | Inr ts \<Rightarrow> Inr (filter truthy ts))
           | _ \<Rightarrow> Inl TypeError)"

text \<open>
  \<^verbatim>\<open>existing.has(schema)\<close> for a string \<open>schema\<close> holds exactly when that string is an
  element.
\<close>

definition findMissingSchemas :: "SchemaTiers \<Rightarrow> json \<Rightarrow> error + SchemaTiers" where
  "findMissingSchemas recs existingSchemas =
     (case existingTypes existingSchemas of
        Inl err \<Rightarrow> Inl err
      | Inr existing \<Rightarrow>
          Inr \<lparr> primary = filter (\<lambda>schema. JStr schema \<notin> set existing) (primary recs),
                secondary = filter (\<lambda>schema. JStr schema \<notin> set existing) (secondary recs),
                optional = filter (\<lambda>schema. JStr schema \<notin> set existing) (optional recs) \<rparr>)"

text \<open>
  A recommendation item. The generated Japanese \<^verbatim>\<open>reason\<close> sentence is left out. The
  item of the default recommendations has no difficulty and no SEO value.
\<close>

record RecommendationItem =
  schema :: string
  priority :: string
  impact :: string
  difficulty :: "string option"
  seoValue :: "nat option"

definition getSchemaDifficulty :: "string \<Rightarrow> string" where
  "getSchemaDifficulty s =
     (case map_of [(''Article'', ''easy''), (''Product'', ''medium''), (''LocalBusiness'', ''medium''),
                   (''Recipe'', ''hard''), (''Event'', ''medium''), (''FAQPage'', ''easy''),
                   (''HowTo'', ''hard''), (''Review'', ''easy''), (''JobPosting'', ''medium''),
                   (''Course'', ''medium'')] s of
        Some d \<Rightarrow> d
      | None \<Rightarrow> ''medium'')"

definition getSEOValue :: "string \<Rightarrow> nat" where
  "getSEOValue s =
     (case map_of [(''Article'', 85), (''Product'', 90), (''LocalBusiness'', 88), (''Recipe'', 92),
                   (''Event'', 85), (''FAQPage'', 80), (''HowTo'', 87), (''Review'', 83),
                   (''JobPosting'', 85), (''Course'', 82)] s of
        Some v \<Rightarrow> v
      | None \<Rightarrow> 75)"

record PrioritizedList =
  missing :: "RecommendationItem list"
  improvements :: "RecommendationItem list"
  optionalItems :: "RecommendationItem list"

definition prioritizeRecommendations :: "SchemaTiers \<Rightarrow> PrioritizedList" where
  "prioritizeRecommendations missingSchemas =
     \<lparr> missing = map (\<lambda>s. \<lparr> schema = s, priority = ''critical'', impact = ''high'',
                             difficulty = Some (getSchemaDifficulty s),
                             seoValue = Some (getSEOValue s) \<rparr>) (primary missingSchemas),
       improvements = map (\<lambda>s. \<lparr> schema = s, priority = ''high'', impact = ''medium'',
                             difficulty = Some (getSchemaDifficulty s),
                             seoValue = Some (getSEOValue s) \<rparr>) (secondary missingSchemas),
       optionalItems = map (\<lambda>s. \<lparr> schema = s, priority = ''low'', impact = ''low'',
                             difficulty = Some (getSchemaDifficulty s),
                             seoValue = Some (getSEOValue s) \<rparr>) (optional missingSchemas) \<rparr>"

text \<open>
  The expected benefits, without their description texts. The default recommendations carry
  the rich-snippet probability only.
\<close>

record ExpectedBenefits =
  richSnippets :: nat
  searchRanking :: "nat option"
  clickThroughRate :: "nat option"
  localSearch :: "nat option"

definition calculateExpectedBenefits :: "PrioritizedList \<Rightarrow> ExpectedBenefits" where
  "calculateExpectedBenefits prioritizedList =
     (let criticalItems = length (missing prioritizedList);
          highItems = length (improvements prioritizedList)
      in \<lparr> richSnippets = min 90 (criticalItems * 30 + highItems * 15),
           searchRanking = Some (min 20 (criticalItems * 5 + highItems * 3)),
           clickThroughRate = Some (min 25 (criticalItems * 8 + highItems * 5)),
           localSearch = Some (if list_ex (\<lambda>item. schema item \<in> set [''LocalBusiness'', ''Organization''])
                                     (missing prioritizedList)
                               then 40 else 10) \<rparr>)"

record PageAnalysis =
  pa_primaryType :: "string option"
  pa_confidence :: "rat option"

record RecommendationResult =
  res_pageType :: string
  res_confidence :: rat
  res_recommendations :: PrioritizedList
  res_expectedBenefits :: ExpectedBenefits

definition getDefaultRecommendations :: RecommendationResult where
  "getDefaultRecommendations =
     \<lparr> res_pageType = ''Article'',
       res_confidence = 0,
       res_recommendations =
         \<lparr> missing = [\<lparr> schema = ''Article'', priority = ''critical'', impact = ''high'',
                         difficulty = None, seoValue = None \<rparr>],
           improvements = [],
           optionalItems = [] \<rparr>,
       res_expectedBenefits =
         \<lparr> richSnippets = 30, searchRanking = None, clickThroughRate = None, localSearch = None \<rparr> \<rparr>"

text \<open>
  \<^verbatim>\<open>generateRecommendations(pageAnalysis, existingSchemas = {}, pageData = {})\<close>. The
  page analysis is \<open>None\<close> when the caller passes null or undefined, which makes the first
  statement throw. The page data is an object in every caller; with it the implementation
  suggestions, the business-specific recommendations and the validation steps are built
  from fixed tables without throwing, and they are left out of the result. Every exception
  lands in the \<^verbatim>\<open>catch\<close> block, which returns the default recommendations.
\<close>

definition generateRecommendations :: "PageAnalysis option \<Rightarrow> json \<Rightarrow> RecommendationResult" where
  "generateRecommendations pageAnalysis existingSchemas =
     (case pageAnalysis of
        None \<Rightarrow> getDefaultRecommendations
      | Some pa \<Rightarrow>
          (let existingSchemas = (if existingSchemas = JUndefined then JObj [] else existingSchemas);
               primaryType = (case pa_primaryType pa of
                                None \<Rightarrow> ''Article''
                              | Some t \<Rightarrow> if t = [] then ''Article'' else t);
               confidence = orZero (pa_confidence pa);
               baseRecommendations = getBaseRecommendations primaryType
           in case findMissingSchemas baseRecommendations existingSchemas of
                Inl err \<Rightarrow> getDefaultRecommendations
              | Inr missingSchemas \<Rightarrow>
                  (let prioritizedList = prioritizeRecommendations missingSchemas
                   in \<lparr> res_pageType = primaryType,
                        res_confidence = confidence,
                        res_recommendations = prioritizedList,
                        res_expectedBenefits = calculateExpectedBenefits prioritizedList \<rparr>)))"

section \<open>SchemaTemplates\<close>

text \<open>The template of each schema type, as returned by the \<^verbatim>\<open>get...Template\<close> methods.\<close>

definition getArticleTemplate :: "(string \<times> json) list" where
  "getArticleTemplate = [
    (''@context'', JStr ''https://schema.org''),
    (''@type'', JStr ''Article''),
    (''headline'', JStr ''{{title}}''),
    (''description'', JStr ''{{description}}''),
    (''image'', JStr ''{{mainImage}}''),
    (''author'', JObj [
        (''@type'', JStr ''Person''),
        (''name'', JStr ''{{authorName}}'')]),
    (''publisher'', JObj [
        (''@type'', JStr ''Organization''),
        (''name'', JStr ''{{publisherName}}''),
        (''logo'', JObj [
          (''@type'', JStr ''ImageObject''),
          (''url'', JStr ''{{publisherLogo}}'')])]),
    (''datePublished'', JStr ''{{publishDate}}''),
    (''dateModified'', JStr ''{{modifiedDate}}''),
    (''mainEntityOfPage'', JObj [
        (''@type'', JStr ''WebPage''),
        (''@id'', JStr ''{{url}}'')])]"

definition getNewsArticleTemplate :: "(string \<times> json) list" where
  "getNewsArticleTemplate = [
    (''@context'', JStr ''https://schema.org''),
    (''@type'', JStr ''NewsArticle''),
    (''headline'', JStr ''{{title}}''),
    (''description'', JStr ''{{description}}''),
    (''image'', JStr ''{{mainImage}}''),
    (''author'', JObj [
        (''@type'', JStr ''Person''),
        (''name'', JStr ''{{authorName}}'')]),
    (''publisher'', JObj [
        (''@type'', JStr ''Organization''),
        (''name'', JStr ''{{publisherName}}''),
        (''logo'', JObj [
          (''@type'', JStr ''ImageObject''),
          (''url'', JStr ''{{publisherLogo}}'')])]),
    (''datePublished'', JStr ''{{publishDate}}''),
    (''dateModified'', JStr ''{{modifiedDate}}''),
    (''mainEntityOfPage'', JObj [
        (''@type'', JStr ''WebPage''),
        (''@id'', JStr ''{{url}}'')]),
    (''articleSection'', JStr ''{{category}}'')]"

definition getBlogPostingTemplate :: "(string \<times> json) list" where
  "getBlogPostingTemplate = [
    (''@context'', JStr ''https://schema.org''),
    (''@type'', JStr ''BlogPosting''),
    (''headline'', JStr ''{{title}}''),
    (''description'', JStr ''{{description}}''),
    (''image'', JStr ''{{mainImage}}''),
    (''author'', JObj [
        (''@type'', JStr ''Person''),
        (''name'', JStr ''{{authorName}}'')]),
    (''publisher'', JObj [
        (''@type'', JStr ''Organization''),
        (''name'', JStr ''{{publisherName}}''),
        (''logo'', JObj [
          (''@type'', JStr ''ImageObject''),
          (''url'', JStr ''{{publisherLogo}}'')])]),
    (''datePublished'', JStr ''{{publishDate}}''),
    (''dateModified'', JStr ''{{modifiedDate}}''),
    (''mainEntityOfPage'', JObj [
        (''@type'', JStr ''WebPage''),
        (''@id'', JStr ''{{url}}'')]),
    (''keywords'', JStr ''{{keywords}}'')]"

definition getProductTemplate :: "(string \<times> json) list" where
  "getProductTemplate = [
    (''@context'', JStr ''https://schema.org''),
    (''@type'', JStr ''Product''),
    (''name'', JStr ''{{productName}}''),
    (''description'', JStr ''{{description}}''),
    (''image'', JStr ''{{productImage}}''),
    (''brand'', JObj [
        (''@type'', JStr ''Brand''),
        (''name'', JStr ''{{brandName}}'')]),
    (''offers'', JObj [
        (''@type'', JStr ''Offer''),
        (''price'', JStr ''{{price}}''),
        (''priceCurrency'', JStr ''JPY''),
        (''availability'', JStr ''{{availability}}''),
        (''seller'', JObj [
          (''@type'', JStr ''Organization''),
          (''name'', JStr ''{{sellerName}}'')])]),
    (''aggregateRating'', JObj [
        (''@type'', JStr ''AggregateRating''),
        (''ratingValue'', JStr ''{{ratingValue}}''),
        (''reviewCount'', JStr ''{{reviewCount}}'')]),
    (''sku'', JStr ''{{sku}}''),
    (''gtin'', JStr ''{{gtin}}'')]"

definition getLocalBusinessTemplate :: "(string \<times> json) list" where
  "getLocalBusinessTemplate = [
    (''@context'', JStr ''https://schema.org''),
    (''@type'', JStr ''LocalBusiness''),
    (''name'', JStr ''{{businessName}}''),
    (''description'', JStr ''{{description}}''),
    (''image'', JStr ''{{businessImage}}''),
    (''address'', JObj [
        (''@type'', JStr ''PostalAddress''),
        (''streetAddress'', JStr ''{{streetAddress}}''),
        (''addressLocality'', JStr ''{{city}}''),
        (''addressRegion'', JStr ''{{state}}''),
        (''postalCode'', JStr ''{{postalCode}}''),
        (''addressCountry'', JStr ''JP'')]),
    (''telephone'', JStr ''{{phone}}''),
    (''url'', JStr ''{{website}}''),
    (''geo'', JObj [
        (''@type'', JStr ''GeoCoordinates''),
        (''latitude'', JStr ''{{latitude}}''),
        (''longitude'', JStr ''{{longitude}}'')]),
    (''openingHoursSpecification'', JArr [JObj [
          (''@type'', JStr ''OpeningHoursSpecification''),
          (''dayOfWeek'', JArr [JStr ''Monday'', JStr ''Tuesday'', JStr ''Wednesday'', JStr ''Thursday'', JStr ''Friday'']),
          (''opens'', JStr ''{{weekdayOpen}}''),
          (''closes'', JStr ''{{weekdayClose}}'')]]),
    (''priceRange'', JStr ''{{priceRange}}'')]"

definition getRecipeTemplate :: "(string \<times> json) list" where
  "getRecipeTemplate = [
    (''@context'', JStr ''https://schema.org''),
    (''@type'', JStr ''Recipe''),
    (''name'', JStr ''{{recipeName}}''),
    (''description'', JStr ''{{description}}''),
    (''image'', JStr ''{{recipeImage}}''),
    (''author'', JObj [
        (''@type'', JStr ''Person''),
        (''name'', JStr ''{{authorName}}'')]),
    (''prepTime'', JStr ''{{prepTime}}''),
    (''cookTime'', JStr ''{{cookTime}}''),
    (''totalTime'', JStr ''{{totalTime}}''),
    (''recipeYield'', JStr ''{{servings}}''),
    (''recipeCategory'', JStr ''{{category}}''),
    (''recipeCuisine'', JStr ''{{cuisine}}''),
    (''recipeIngredient'', JStr ''{{ingredients}}''),
    (''recipeInstructions'', JStr ''{{instructions}}''),
    (''nutrition'', JObj [
        (''@type'', JStr ''NutritionInformation''),
        (''calories'', JStr ''{{calories}}'')]),
    (''aggregateRating'', JObj [
        (''@type'', JStr ''AggregateRating''),
        (''ratingValue'', JStr ''{{ratingValue}}''),
        (''reviewCount'', JStr ''{{reviewCount}}'')])]"

definition getEventTemplate :: "(string \<times> json) list" where
  "getEventTemplate = [
    (''@context'', JStr ''https://schema.org''),
    (''@type'', JStr ''Event''),
    (''name'', JStr ''{{eventName}}''),
    (''description'', JStr ''{{description}}''),
    (''image'', JStr ''{{eventImage}}''),
    (''startDate'', JStr ''{{startDate}}''),
    (''endDate'', JStr ''{{endDate}}''),
    (''location'', JObj [
        (''@type'', JStr ''Place''),
        (''name'', JStr ''{{venueName}}''),
        (''address'', JObj [
          (''@type'', JStr ''PostalAddress''),
          (''streetAddress'', JStr ''{{streetAddress}}''),
          (''addressLocality'', JStr ''{{city}}''),
          (''addressRegion'', JStr ''{{state}}''),
          (''postalCode'', JStr ''{{postalCode}}''),
          (''addressCountry'', JStr ''JP'')])]),
    (''organizer'', JObj [
        (''@type'', JStr ''Organization''),
        (''name'', JStr ''{{organizerName}}''),
        (''url'', JStr ''{{organizerUrl}}'')]),
    (''offers'', JObj [
        (''@type'', JStr ''Offer''),
        (''price'', JStr ''{{ticketPrice}}''),
        (''priceCurrency'', JStr ''JPY''),
        (''availability'', JStr ''{{availability}}''),
        (''url'', JStr ''{{ticketUrl}}'')])]"

definition getFAQPageTemplate :: "(string \<times> json) list" where
  "getFAQPageTemplate = [
    (''@context'', JStr ''https://schema.org''),
    (''@type'', JStr ''FAQPage''),
    (''mainEntity'', JStr ''{{faqItems}}'')]"

definition getHowToTemplate :: "(string \<times> json) list" where
  "getHowToTemplate = [
    (''@context'', JStr ''https://schema.org''),
    (''@type'', JStr ''HowTo''),
    (''name'', JStr ''{{title}}''),
    (''description'', JStr ''{{description}}''),
    (''image'', JStr ''{{image}}''),
    (''totalTime'', JStr ''{{totalTime}}''),
    (''supply'', JStr ''{{supplies}}''),
    (''tool'', JStr ''{{tools}}''),
    (''step'', JStr ''{{steps}}'')]"

definition getReviewTemplate :: "(string \<times> json) list" where
  "getReviewTemplate = [
    (''@context'', JStr ''https://schema.org''),
    (''@type'', JStr ''Review''),
    (''itemReviewed'', JObj [
        (''@type'', JStr ''{{reviewedItemType}}''),
        (''name'', JStr ''{{reviewedItemName}}'')]),
    (''reviewRating'', JObj [
        (''@type'', JStr ''Rating''),
        (''ratingValue'', JStr ''{{ratingValue}}''),
        (''bestRating'', JStr ''5'')]),
    (''author'', JObj [
        (''@type'', JStr ''Person''),
        (''name'', JStr ''{{authorName}}'')]),
    (''reviewBody'', JStr ''{{reviewText}}''),
    (''datePublished'', JStr ''{{publishDate}}'')]"

definition getJobPostingTemplate :: "(string \<times> json) list" where
  "getJobPostingTemplate = [
    (''@context'', JStr ''https://schema.org''),
    (''@type'', JStr ''JobPosting''),
    (''title'', JStr ''{{jobTitle}}''),
    (''description'', JStr ''{{jobDescription}}''),
    (''hiringOrganization'', JObj [
        (''@type'', JStr ''Organization''),
        (''name'', JStr ''{{companyName}}''),
        (''sameAs'', JStr ''{{companyUrl}}'')]),
    (''jobLocation'', JObj [
        (''@type'', JStr ''Place''),
        (''address'', JObj [
          (''@type'', JStr ''PostalAddress''),
          (''addressLocality'', JStr ''{{city}}''),
          (''addressRegion'', JStr ''{{state}}''),
          (''addressCountry'', JStr ''JP'')])]),
    (''baseSalary'', JObj [
        (''@type'', JStr ''MonetaryAmount''),
        (''currency'', JStr ''JPY''),
        (''value'', JObj [
          (''@type'', JStr ''QuantitativeValue''),
          (''minValue'', JStr ''{{minSalary}}''),
          (''maxValue'', JStr ''{{maxSalary}}''),
          (''unitText'', JStr ''MONTH'')])]),
    (''employmentType'', JStr ''{{employmentType}}''),
    (''datePosted'', JStr ''{{postDate}}''),
    (''validThrough'', JStr ''{{validThrough}}'')]"

definition getCourseTemplate :: "(string \<times> json) list" where
  "getCourseTemplate = [
    (''@context'', JStr ''https://schema.org''),
    (''@type'', JStr ''Course''),
    (''name'', JStr ''{{courseName}}''),
    (''description'', JStr ''{{description}}''),
    (''provider'', JObj [
        (''@type'', JStr ''Organization''),
        (''name'', JStr ''{{providerName}}'')]),
    (''hasCourseInstance'', JObj [
        (''@type'', JStr ''CourseInstance''),
        (''courseMode'', JStr ''{{courseMode}}''),
        (''courseSchedule'', JObj [
          (''@type'', JStr ''Schedule''),
          (''duration'', JStr ''{{duration}}''),
          (''repeatFrequency'', JStr ''{{frequency}}'')]),
        (''instructor'', JObj [
          (''@type'', JStr ''Person''),
          (''name'', JStr ''{{instructorName}}'')])]),
    (''offers'', JObj [
        (''@type'', JStr ''Offer''),
        (''price'', JStr ''{{price}}''),
        (''priceCurrency'', JStr ''JPY'')])]"

definition getOrganizationTemplate :: "(string \<times> json) list" where
  "getOrganizationTemplate = [
    (''@context'', JStr ''https://schema.org''),
    (''@type'', JStr ''Organization''),
    (''name'', JStr ''{{organizationName}}''),
    (''url'', JStr ''{{website}}''),
    (''logo'', JStr ''{{logo}}''),
    (''description'', JStr ''{{description}}''),
    (''address'', JObj [
        (''@type'', JStr ''PostalAddress''),
        (''streetAddress'', JStr ''{{streetAddress}}''),
        (''addressLocality'', JStr ''{{city}}''),
        (''addressRegion'', JStr ''{{state}}''),
        (''postalCode'', JStr ''{{postalCode}}''),
        (''addressCountry'', JStr ''JP'')]),
    (''contactPoint'', JObj [
        (''@type'', JStr ''ContactPoint''),
        (''telephone'', JStr ''{{phone}}''),
        (''contactType'', JStr ''customer service'')]),
    (''sameAs'', JStr ''{{socialProfiles}}'')]"

definition getPersonTemplate :: "(string \<times> json) list" where
  "getPersonTemplate = [
    (''@context'', JStr ''https://schema.org''),
    (''@type'', JStr ''Person''),
    (''name'', JStr ''{{name}}''),
    (''jobTitle'', JStr ''{{jobTitle}}''),
    (''affiliation'', JObj [
        (''@type'', JStr ''Organization''),
        (''name'', JStr ''{{organization}}'')]),
    (''url'', JStr ''{{website}}''),
    (''sameAs'', JStr ''{{socialProfiles}}'')]"

definition getBreadcrumbListTemplate :: "(string \<times> json) list" where
  "getBreadcrumbListTemplate = [
    (''@context'', JStr ''https://schema.org''),
    (''@type'', JStr ''BreadcrumbList''),
    (''itemListElement'', JStr ''{{breadcrumbItems}}'')]"

definition getTemplate :: "string \<Rightarrow> (string \<times> json) list option" where
  "getTemplate schemaType =
     map_of [(''Article'', getArticleTemplate),
             (''NewsArticle'', getNewsArticleTemplate),
             (''BlogPosting'', getBlogPostingTemplate),
             (''Product'', getProductTemplate),
             (''LocalBusiness'', getLocalBusinessTemplate),
             (''Recipe'', getRecipeTemplate),
             (''Event'', getEventTemplate),
             (''FAQPage'', getFAQPageTemplate),
             (''HowTo'', getHowToTemplate),
             (''Review'', getReviewTemplate),
             (''JobPosting'', getJobPostingTemplate),
             (''Course'', getCourseTemplate),
             (''Organization'', getOrganizationTemplate),
             (''Person'', getPersonTemplate),
             (''BreadcrumbList'', getBreadcrumbListTemplate)] schemaType"

text \<open>
  \<^verbatim>\<open>str.replace(new RegExp(p, 'g'), r)\<close> for a pattern \<open>p\<close> that matches literally (every
  placeholder \<^verbatim>\<open>{{key}}\<close> does: a brace that opens no quantifier stands for itself)
  and a replacement \<open>r\<close> without \<^verbatim>\<open>$\<close>.
\<close>

function replaceAll :: "string \<Rightarrow> string \<Rightarrow> string \<Rightarrow> string" where
  "replaceAll p r [] = []"
| "replaceAll p r (c # cs) =
     (if p \<noteq> [] \<and> startsWith (c # cs) p then r @ replaceAll p r (drop (length p) (c # cs))
      else c # replaceAll p r cs)"
  by pat_completeness auto
termination
  by (relation "measure (\<lambda>(p, r, t). length t)") auto

text \<open>
  The loop of \<^verbatim>\<open>fillTemplate\<close> over \<^verbatim>\<open>Object.entries(extractedData)\<close>, on one string
  of the template. The extracted values are taken as the strings that \<^verbatim>\<open>replace\<close>
  inserts.
\<close>

definition fillString :: "(string \<times> string) list \<Rightarrow> string \<Rightarrow> string" where
  "fillString extractedData s =
     foldl (\<lambda>filledStr (key, v). replaceAll (''{{'' @ key @ ''}}'') v filledStr) s extractedData"

text \<open>
  \<^verbatim>\<open>fillTemplate\<close> serialises the template, replaces the placeholders in the serialised
  text and parses the result. No key of a template holds a placeholder and
  \<^verbatim>\<open>{{\<close> occurs nowhere in the punctuation of serialised JSON, so the
  replacements fall inside the string values; for extracted values without quotes,
  backslashes and control characters, parsing gives back the template with the
  replacements made in each of its strings.
\<close>

fun fillJson :: "(string \<times> string) list \<Rightarrow> json \<Rightarrow> json" where
  "fillJson extractedData (JStr s) = JStr (fillString extractedData s)"
| "fillJson extractedData (JArr xs) = JArr (map (fillJson extractedData) xs)"
| "fillJson extractedData (JObj kvs) = JObj (map (map_prod id (fillJson extractedData)) kvs)"
| "fillJson extractedData v = v"

definition keepItem :: "json \<Rightarrow> bool" where
  "keepItem item \<longleftrightarrow>
     item \<noteq> JNull \<and> item \<noteq> JUndefined \<and> item \<noteq> JStr [] \<and>
     (case item of JStr s \<Rightarrow> \<not> str_includes s ''{{'' | _ \<Rightarrow> True)"

text \<open>
  \<^verbatim>\<open>cleanSchema(schema)\<close> on the entries of \<^verbatim>\<open>schema\<close>. An assignment
  \<^verbatim>\<open>cleaned[key] = ...\<close> with the key \<^verbatim>\<open>__proto__\<close> reaches the setter inherited from
  \<^verbatim>\<open>Object.prototype\<close> and adds no entry.
\<close>

fun cleanSchema :: "(string \<times> json) list \<Rightarrow> (string \<times> json) list" where
  "cleanSchema [] = []"
| "cleanSchema ((key, JObj kvs) # rest) =
     (let cleanedObject = cleanSchema kvs
      in (if cleanedObject \<noteq> [] \<and> key \<noteq> ''__proto__'' then [(key, JObj cleanedObject)] else [])
         @ cleanSchema rest)"
| "cleanSchema ((key, JArr items) # rest) =
     (let cleanedArray = filter keepItem items
      in (if cleanedArray \<noteq> [] \<and> key \<noteq> ''__proto__'' then [(key, JArr cleanedArray)] else [])
         @ cleanSchema rest)"
| "cleanSchema ((key, v) # rest) =
     (if v \<noteq> JNull \<and> v \<noteq> JUndefined \<and> v \<noteq> JStr [] \<and> v \<noteq> JStr (''{{'' @ key @ ''}}'')
         \<and> key \<noteq> ''__proto__''
      then [(key, v)] else [])
     @ cleanSchema rest"

text \<open>
  \<^verbatim>\<open>fillTemplate(template, pageData, $)\<close>, as a function of the template and of the
  data that \<^verbatim>\<open>extractDataFromPage\<close> returned for it.
\<close>

definition fillTemplate :: "(string \<times> json) list \<Rightarrow> (string \<times> string) list \<Rightarrow> (string \<times> json) list" where
  "fillTemplate template extractedData =
     cleanSchema (map (map_prod id (fillJson extractedData)) template)"

text \<open>
  \<^verbatim>\<open>extractDataFromPage\<close> for a schema type outside its \<^verbatim>\<open>switch\<close> (Organization,
  Person, BreadcrumbList): the three basic entries, for the title, description and URL
  that the page yields.
\<close>

definition extractBasicData :: "string \<Rightarrow> string \<Rightarrow> string \<Rightarrow> (string \<times> string) list" where
  "extractBasicData pageTitle pageDescription pageUrl =
     [(''title'', pageTitle), (''description'', pageDescription), (''url'', pageUrl)]"


section \<open>Properties to be checked, and example inputs\<close>

text \<open>
  The definitions of this section do not come from the code. They state, in the words of
  the written specification, what the code is compared against, and fix the example
  pages and inventories that the theorems evaluate.
\<close>

text \<open>
  The special-element bonus of a page type as the specification lists it: +10 to Product
  for a price element, +8 to Review and +5 to Product for a review element, +12 to Event,
  +15 to Recipe, +15 to FAQ, +12 to JobPosting and +10 to Course for their markers.
\<close>

definition specialElementBonus :: "PageType \<Rightarrow> SpecialElements \<Rightarrow> rat" where
  "specialElementBonus t se =
     (case t of
        Product \<Rightarrow> (if price se then 10 else 0) + (if review se then 5 else 0)
      | Review \<Rightarrow> (if review se then 8 else 0)
      | Event \<Rightarrow> (if event se then 12 else 0)
      | Recipe \<Rightarrow> (if recipe se then 15 else 0)
      | FAQ \<Rightarrow> (if faq se then 15 else 0)
      | JobPosting \<Rightarrow> (if job se then 12 else 0)
      | Course \<Rightarrow> (if course se then 10 else 0)
      | _ \<Rightarrow> 0)"

definition finalScore :: "ExtractedPageData \<Rightarrow> PageType \<Rightarrow> rat" where
  "finalScore pd t = calculateSingleTypeScore t pd + specialElementBonus t (specialElements pd)"

text \<open>A scores object that holds the value \<open>g t\<close> for every page type \<open>t\<close>, in table order.\<close>

definition typeTable :: "(PageType \<Rightarrow> rat) \<Rightarrow> scores" where
  "typeTable g = map (\<lambda>t. (t, g t)) pageTypes"

text \<open>
  The base score as the specification writes it: keyword occurrences are counted in the
  title, the meta description, the joined headings and the body text; the title, URL and
  content patterns are counted by containment, each pattern once at most.
\<close>

definition specifiedScore :: "PageType \<Rightarrow> ExtractedPageData \<Rightarrow> rat" where
  "specifiedScore type pageData =
     3 * (of_nat (countMatches (title pageData) (sigKeywords (patterns type)))
          + of_nat (countPatternMatches (title pageData) (titlePatterns (patterns type))))
     + 5 / 2 * of_nat (countMatches (metaDescription pageData) (sigKeywords (patterns type)))
     + 2 * of_nat (countMatches (join (headings pageData) '' '') (sigKeywords (patterns type)))
     + 2 * of_nat (countPatternMatches (url pageData) (urlPatterns (patterns type)))
     + 1 * (of_nat (countMatches (bodyText pageData) (sigKeywords (patterns type)))
            + of_nat (countPatternMatches (bodyText pageData) (contentPatterns (patterns type))))"

text \<open>
  No keyword and no pattern of any signature matches the page, by the matching rules of the
  specification: keywords by case-insensitive occurrence in the title, the meta
  description, the joined headings and the body text; title, URL and content patterns by
  containment.
\<close>

definition noSignatureMatch :: "ExtractedPageData \<Rightarrow> bool" where
  "noSignatureMatch pd \<longleftrightarrow>
     (\<forall>t. countMatches (title pd) (sigKeywords (patterns t)) = 0
        \<and> countPatternMatches (title pd) (titlePatterns (patterns t)) = 0
        \<and> countMatches (metaDescription pd) (sigKeywords (patterns t)) = 0
        \<and> countMatches (join (headings pd) '' '') (sigKeywords (patterns t)) = 0
        \<and> countPatternMatches (url pd) (urlPatterns (patterns t)) = 0
        \<and> countMatches (bodyText pd) (sigKeywords (patterns t)) = 0
        \<and> countPatternMatches (bodyText pd) (contentPatterns (patterns t)) = 0)"

definition noSpecialElements :: SpecialElements where
  "noSpecialElements = \<lparr> price = False, review = False, event = False, recipe = False,
                          faq = False, job = False, course = False \<rparr>"

text \<open>The page data extracted from a document without title, headings and body text.\<close>

definition emptyPage :: ExtractedPageData where
  "emptyPage = \<lparr> title = [], metaDescription = [], headings = [], url = [],
                 bodyText = [], contentLength = 0, specialElements = noSpecialElements \<rparr>"

text \<open>
  Pages without any text on which special elements are detected: a price and a review
  element on the first, an event and a job marker on the second.
\<close>

definition shopPage :: ExtractedPageData where
  "shopPage = \<lparr> title = [], metaDescription = [], headings = [], url = [],
                bodyText = [], contentLength = 0,
                specialElements = \<lparr> price = True, review = True, event = False, recipe = False,
                                    faq = False, job = False, course = False \<rparr> \<rparr>"

definition tiePage :: ExtractedPageData where
  "tiePage = \<lparr> title = [], metaDescription = [], headings = [], url = [],
               bodyText = [], contentLength = 0,
               specialElements = \<lparr> price = False, review = False, event = True, recipe = False,
                                   faq = False, job = True, course = False \<rparr> \<rparr>"

text \<open>
  The page data extracted from a document whose body is the single word hotel: no title,
  no headings, no special element.
\<close>

definition hotelPage :: ExtractedPageData where
  "hotelPage = \<lparr> title = [], metaDescription = [], headings = [], url = [],
                 bodyText = ''hotel'', contentLength = 5,
                 specialElements = noSpecialElements \<rparr>"

text \<open>A page whose body text names a telephone number twice.\<close>

definition telPage :: ExtractedPageData where
  "telPage = \<lparr> title = [], metaDescription = [], headings = [], url = [],
               bodyText = ''TEL TEL'', contentLength = 7,
               specialElements = noSpecialElements \<rparr>"

text \<open>The tiers of one catalog entry are pairwise disjoint.\<close>

definition tiersDisjoint :: "SchemaTiers \<Rightarrow> bool" where
  "tiersDisjoint r \<longleftrightarrow>
     set (primary r) \<inter> set (secondary r) = {} \<and>
     set (primary r) \<inter> set (optional r) = {} \<and>
     set (secondary r) \<inter> set (optional r) = {}"

text \<open>
  Every \<^verbatim>\<open>@type\<close> value of an inventory entry \<^verbatim>\<open>{data, isValid, position}\<close>: the
  scalar, or each element of an array.
\<close>

definition typeValues :: "json \<Rightarrow> json list" where
  "typeValues entry =
     (case getProp (getProp entry ''data'') ''@type'' of
        JArr xs \<Rightarrow> xs
      | JUndefined \<Rightarrow> []
      | v \<Rightarrow> [v])"

text \<open>An inventory entry whose JSON-LD block declares two types.\<close>

definition arrayTypedEntry :: json where
  "arrayTypedEntry =
     JObj [(''data'', JObj [(''@context'', JStr ''https://schema.org''),
                            (''@type'', JArr [JStr ''WebPage'', JStr ''Article'']),
                            (''headline'', JStr ''Hello'')]),
           (''position'', JNum 1),
           (''isValid'', JBool True)]"

definition arrayTypedInventory :: json where
  "arrayTypedInventory =
     JObj [(''jsonLd'', JArr [arrayTypedEntry]), (''microdata'', JArr []), (''rdfa'', JArr [])]"

definition articleAnalysis :: PageAnalysis where
  "articleAnalysis = \<lparr> pa_primaryType = Some ''Article'', pa_confidence = Some 3 \<rparr>"

text \<open>
  The inventory that \<^verbatim>\<open>checkStructuredData\<close> builds for a page with one Article block:
  the parsed object itself is pushed onto \<^verbatim>\<open>jsonLd\<close>.
\<close>

definition bareInventory :: json where
  "bareInventory =
     JObj [(''jsonLd'', JArr [JObj [(''@context'', JStr ''https://schema.org''),
                                    (''@type'', JStr ''Article''),
                                    (''headline'', JStr ''Hello'')]]),
           (''microdata'', JArr []),
           (''rdfa'', JArr [])]"

text \<open>
  A string with a substring of the form \<^verbatim>\<open>{{...}}\<close>, and a JSON value that holds such
  a string at any depth.
\<close>

fun afterFirst :: "string \<Rightarrow> string \<Rightarrow> string option" where
  "afterFirst [] p = (if p = [] then Some [] else None)"
| "afterFirst (c # cs) p =
     (if startsWith (c # cs) p then Some (drop (length p) (c # cs)) else afterFirst cs p)"

definition matchesPlaceholder :: "string \<Rightarrow> bool" where
  "matchesPlaceholder s =
     (case afterFirst s ''{{'' of None \<Rightarrow> False | Some rest \<Rightarrow> str_includes rest ''}}'')"

fun containsPlaceholder :: "json \<Rightarrow> bool" where
  "containsPlaceholder (JStr s) = matchesPlaceholder s"
| "containsPlaceholder (JArr xs) = list_ex containsPlaceholder xs"
| "containsPlaceholder (JObj kvs) = list_ex (\<lambda>(k, v). containsPlaceholder v) kvs"
| "containsPlaceholder v = False"

text \<open>A small schema with an empty value, an unfilled placeholder and a nested object.\<close>

definition sampleSchema :: "(string \<times> json) list" where
  "sampleSchema =
     [(''@type'', JStr ''Person''),
      (''name'', JStr ''{{name}}''),
      (''email'', JStr ''''),
      (''affiliation'', JObj [(''@type'', JStr ''Organization''), (''name'', JStr ''{{organization}}'')]),
      (''knows'', JObj [(''name'', JStr ''{{name}}'')]),
      (''sameAs'', JArr [JStr ''{{socialProfiles}}'', JNull, JStr ''https://example.com/me''])]"

text \<open>The characters with a special meaning in a regular expression.\<close>

definition regexMetachars :: string where
  "regexMetachars = ''.*+?^$(){}|[]'' @ [CHR 0x5C]"

section \<open>Scoring\<close>

text \<open>
  No keyword and no content pattern of the tables is empty or holds a regular expression
  metacharacter, so \<^const>\<open>matchCount\<close> counts what the constructed regular
  expressions match.
\<close>

lemma patterns_literal:
  "\<forall>k \<in> set (sigKeywords (patterns t)) \<union> set (contentPatterns (patterns t)).
     k \<noteq> [] \<and> set k \<inter> set regexMetachars = {}"
  by (cases t) (simp_all add: regexMetachars_def)

text \<open>The score of one page type, as the code adds it up.\<close>

lemma calculateSingleTypeScore_sum:
  "calculateSingleTypeScore type pd =
     3 * (of_nat (countMatches (title pd) (sigKeywords (patterns type)))
          + of_nat (countPatternMatches (title pd) (titlePatterns (patterns type))))
     + 5 / 2 * of_nat (countMatches (metaDescription pd) (sigKeywords (patterns type)))
     + 2 * of_nat (countMatches (join (headings pd) '' '') (sigKeywords (patterns type)))
     + 2 * of_nat (countPatternMatches (url pd) (urlPatterns (patterns type)))
     + 1 * (of_nat (countMatches (bodyText pd) (sigKeywords (patterns type)))
            + of_nat (countMatches (bodyText pd) (contentPatterns (patterns type))))"
  by (simp add: calculateSingleTypeScore_def Let_def weights_def algebra_simps)

text \<open>
  C2. The specification gives the base score as a weighted sum in which each content
  pattern adds 1 when the body text contains it, however often. The code passes the
  content patterns to \<^const>\<open>countMatches\<close>, which counts every occurrence (and ignores
  case), where the title and URL patterns go through \<^const>\<open>countPatternMatches\<close>. On a
  body text with the content pattern TEL twice, the LocalBusiness score is 2 where the
  specified sum is 1.
\<close>

theorem content_patterns_counted_per_occurrence:
  "calculateSingleTypeScore LocalBusiness telPage = 2
   \<and> specifiedScore LocalBusiness telPage = 1"
proof
  show "calculateSingleTypeScore LocalBusiness telPage = 2"
    by (simp add: calculateSingleTypeScore_def telPage_def Let_def weights_def
          countMatches_def countPatternMatches_def toLowerCase_def lowerChar_def)
  show "specifiedScore LocalBusiness telPage = 1"
    by (simp add: specifiedScore_def telPage_def
          countMatches_def countPatternMatches_def toLowerCase_def lowerChar_def)
qed

subsection \<open>Special-element bonuses\<close>

lemma addBonus_typeTable:
  "addBonus t b (typeTable g) = typeTable (g(t := g t + b))"
  by (cases t) (simp_all add: addBonus_def typeTable_def pageTypes_def orZero_def)

lemma if_typeTable: "(if c then typeTable g else typeTable h) = typeTable (if c then g else h)"
  by simp

lemma apply_bonus_typeTable:
  "applySpecialElementBonus (typeTable f) se = typeTable (\<lambda>t. f t + specialElementBonus t se)"
proof -
  have "applySpecialElementBonus (typeTable f) se = typeTable
     (let g = (if price se then f(Product := f Product + 10) else f);
          g = (if review se
               then (g(Review := g Review + 8))(Product := (g(Review := g Review + 8)) Product + 5)
               else g);
          g = (if event se then g(Event := g Event + 12) else g);
          g = (if recipe se then g(Recipe := g Recipe + 15) else g);
          g = (if faq se then g(FAQ := g FAQ + 15) else g);
          g = (if job se then g(JobPosting := g JobPosting + 12) else g);
          g = (if course se then g(Course := g Course + 10) else g)
      in g)"
    unfolding applySpecialElementBonus_def Let_def
    by (simp only: addBonus_typeTable if_typeTable)
  also have "\<dots> = typeTable (\<lambda>t. f t + specialElementBonus t se)"
  proof -
    have "(let g = (if price se then f(Product := f Product + 10) else f);
          g = (if review se
               then (g(Review := g Review + 8))(Product := (g(Review := g Review + 8)) Product + 5)
               else g);
          g = (if event se then g(Event := g Event + 12) else g);
          g = (if recipe se then g(Recipe := g Recipe + 15) else g);
          g = (if faq se then g(FAQ := g FAQ + 15) else g);
          g = (if job se then g(JobPosting := g JobPosting + 12) else g);
          g = (if course se then g(Course := g Course + 10) else g)
      in g) t = f t + specialElementBonus t se" for t
      by (cases t) (simp_all add: Let_def specialElementBonus_def if_distribR)
    then show ?thesis by (simp add: typeTable_def)
  qed
  finally show ?thesis .
qed

lemma calculateTypeScores_final: "calculateTypeScores pd = typeTable (finalScore pd)"
  unfolding calculateTypeScores_def
  using apply_bonus_typeTable [of "\<lambda>t. calculateSingleTypeScore t pd"]
  by (simp add: typeTable_def finalScore_def [abs_def])

lemma map_of_typeTable: "map_of (typeTable g) t = Some (g t)"
  by (cases t) (simp_all add: typeTable_def pageTypes_def)

lemma base_empty_text:
  "title pd = [] \<Longrightarrow> metaDescription pd = [] \<Longrightarrow> headings pd = [] \<Longrightarrow> url pd = []
   \<Longrightarrow> bodyText pd = [] \<Longrightarrow> calculateSingleTypeScore t pd = 0"
  by (simp add: calculateSingleTypeScore_def Let_def countMatches_def countPatternMatches_def)

lemma finalScore_shopPage:
  "finalScore shopPage = (\<lambda>t. case t of Product \<Rightarrow> 15 | Review \<Rightarrow> 8 | _ \<Rightarrow> 0)"
proof
  fix t
  have "calculateSingleTypeScore t shopPage = 0"
    by (rule base_empty_text) (simp_all add: shopPage_def)
  then show "finalScore shopPage t = (case t of Product \<Rightarrow> 15 | Review \<Rightarrow> 8 | _ \<Rightarrow> 0)"
    by (cases t) (simp_all add: finalScore_def specialElementBonus_def shopPage_def)
qed

lemma finalScore_tiePage:
  "finalScore tiePage = (\<lambda>t. case t of Event \<Rightarrow> 12 | JobPosting \<Rightarrow> 12 | _ \<Rightarrow> 0)"
proof
  fix t
  have "calculateSingleTypeScore t tiePage = 0"
    by (rule base_empty_text) (simp_all add: tiePage_def)
  then show "finalScore tiePage t = (case t of Event \<Rightarrow> 12 | JobPosting \<Rightarrow> 12 | _ \<Rightarrow> 0)"
    by (cases t) (simp_all add: finalScore_def specialElementBonus_def tiePage_def)
qed

text \<open>
  C6. After base scoring, the score of each page type is its base score plus the
  bonuses of the special elements detected: +10 to Product for a price element, +8 to
  Review and +5 to Product for a review element, +12 to Event, +15 to Recipe, +15 to FAQ,
  +12 to JobPosting and +10 to Course. Each bonus depends on its own detector only, and
  the scores object keeps one entry per page type in table order.
\<close>

theorem special_element_bonus:
  "map fst (calculateTypeScores pd) = pageTypes
   \<and> orZero (map_of (calculateTypeScores pd) t)
       = calculateSingleTypeScore t pd + specialElementBonus t (specialElements pd)"
proof
  show "map fst (calculateTypeScores pd) = pageTypes"
    by (simp add: calculateTypeScores_final typeTable_def comp_def)
  show "orZero (map_of (calculateTypeScores pd) t)
       = calculateSingleTypeScore t pd + specialElementBonus t (specialElements pd)"
    by (simp add: calculateTypeScores_final map_of_typeTable orZero_def finalScore_def)
qed

theorem special_element_bonus_witness:
  "orZero (map_of (calculateTypeScores shopPage) Product) = 15
   \<and> orZero (map_of (calculateTypeScores shopPage) Review) = 8
   \<and> orZero (map_of (calculateTypeScores shopPage) Article) = 0"
  using special_element_bonus [of shopPage Product] special_element_bonus [of shopPage Review]
    special_element_bonus [of shopPage Article] finalScore_shopPage
  by (simp add: finalScore_def fun_eq_iff)

section \<open>Ranking\<close>

lemma insort_key_map:
  "insort_key f (h x) (map h ys) = map h (insort_key (\<lambda>a. f (h a)) x ys)"
  by (induction ys) simp_all

lemma sort_key_map:
  "sort_key f (map h xs) = map h (sort_key (\<lambda>a. f (h a)) xs)"
  by (induction xs) (simp_all add: insort_key_map)

lemma rankTypes_typeTable:
  "rankTypes (typeTable g) = sort_key (\<lambda>t. - g t) pageTypes"
  by (simp add: rankTypes_def typeTable_def sort_key_map comp_def)

lemma pageTypes_all: "set pageTypes = UNIV"
proof -
  have "t \<in> set pageTypes" for t
    by (cases t) (simp_all add: pageTypes_def)
  then show ?thesis by blast
qed

lemma pageTypes_distinct: "distinct pageTypes"
  by (simp add: pageTypes_def)

lemma ranking_length: "length (sort_key f pageTypes) = 10"
  by (simp add: pageTypes_def)

text \<open>
  The head of a stably sorted list is the first element of the input with the least key.
\<close>

lemma sort_key_head_first_min:
  fixes f :: "'a \<Rightarrow> 'k::linorder"
  shows "sort_key f xs = y # ys \<Longrightarrow>
    \<exists>before after. xs = before @ y # after
       \<and> (\<forall>b \<in> set before. f y < f b) \<and> (\<forall>a \<in> set after. f y \<le> f a)"
proof (induction xs arbitrary: y ys)
  case Nil
  then show ?case by simp
next
  case (Cons x xs)
  note IH = Cons.IH and sorted_eq = Cons.prems
  show ?case
  proof (cases "sort_key f xs")
    case Nil
    then have "xs = []"
      by (metis length_sort length_0_conv)
    with sorted_eq have "y = x" by simp
    with \<open>xs = []\<close>
    have "x # xs = [] @ y # [] \<and> (\<forall>e \<in> set []. f y < f e) \<and> (\<forall>e \<in> set []. f y \<le> f e)"
      by simp
    then show ?thesis by blast
  next
    case inner: (Cons z zs)
    from IH [OF inner] obtain b a where
      split: "xs = b @ z # a" and lt: "\<forall>e \<in> set b. f z < f e" and le: "\<forall>e \<in> set a. f z \<le> f e"
      by blast
    show ?thesis
    proof (cases "f x \<le> f z")
      case True
      with inner sorted_eq have "y = x" by simp
      moreover have "\<forall>e \<in> set xs. f x \<le> f e"
        using True split lt le by fastforce
      ultimately
      have "x # xs = [] @ y # xs \<and> (\<forall>e \<in> set []. f y < f e) \<and> (\<forall>e \<in> set xs. f y \<le> f e)"
        by simp
      then show ?thesis by blast
    next
      case False
      with inner sorted_eq have "y = z" by simp
      with split lt le False
      have "x # xs = (x # b) @ y # a \<and> (\<forall>e \<in> set (x # b). f y < f e) \<and> (\<forall>e \<in> set a. f y \<le> f e)"
        by auto
      then show ?thesis by blast
    qed
  qed
qed

lemma take2_drop1_take5:
  "length xs = 10 \<Longrightarrow> take 2 (drop 1 (take 5 xs)) = [xs ! 1, xs ! 2]"
proof -
  assume len: "length xs = 10"
  then obtain a b c rest where "xs = a # b # c # rest"
    by (cases xs; cases "tl xs"; cases "tl (tl xs)") auto
  then show ?thesis by simp
qed

lemma analyzePage_success:
  fixes pd
  defines "ranking \<equiv> sort_key (\<lambda>t. - finalScore pd t) pageTypes"
  shows "allScores (analyzePage (Inr pd)) = typeTable (finalScore pd)"
    and "primaryType (analyzePage (Inr pd)) = Some (ranking ! 0)"
    and "secondaryTypes (analyzePage (Inr pd)) = [ranking ! 1, ranking ! 2]"
    and "confidence (analyzePage (Inr pd)) = finalScore pd (ranking ! 0)"
proof -
  have len: "length ranking = 10"
    unfolding ranking_def by (rule ranking_length)
  then obtain a rest where shape: "ranking = a # rest"
    by (cases ranking) auto
  have top: "getTopTypes (typeTable (finalScore pd)) = take 5 ranking"
    by (simp add: getTopTypes_def rankTypes_typeTable ranking_def)
  show "allScores (analyzePage (Inr pd)) = typeTable (finalScore pd)"
    by (simp add: analyzePage_def Let_def calculateTypeScores_final)
  show "primaryType (analyzePage (Inr pd)) = Some (ranking ! 0)"
    by (simp add: analyzePage_def Let_def calculateTypeScores_final top shape)
  show "secondaryTypes (analyzePage (Inr pd)) = [ranking ! 1, ranking ! 2]"
    using take2_drop1_take5 [OF len]
    by (simp add: analyzePage_def Let_def calculateTypeScores_final top)
  show "confidence (analyzePage (Inr pd)) = finalScore pd (ranking ! 0)"
    by (simp add: analyzePage_def Let_def calculateTypeScores_final top shape
          map_of_typeTable orZero_def)
qed

lemma scoreOf_allScores:
  "orZero (map_of (allScores (analyzePage (Inr pd))) t) = finalScore pd t"
  by (simp add: analyzePage_success(1) map_of_typeTable orZero_def)

lemma ranking_sorted_desc:
  "sorted_wrt (\<lambda>a b. g b \<le> g a) (sort_key (\<lambda>t. - g t) xs)" for g :: "'a \<Rightarrow> rat"
proof -
  have "sorted (map (\<lambda>t. - g t) (sort_key (\<lambda>t. - g t) xs))"
    by (rule sorted_sort_key)
  then show ?thesis
    by (simp add: sorted_map)
qed

lemma ranking_head_max:
  fixes g :: "PageType \<Rightarrow> rat"
  shows "g t \<le> g (sort_key (\<lambda>t. - g t) pageTypes ! 0)"
proof -
  let ?r = "sort_key (\<lambda>t. - g t) pageTypes"
  have "t \<in> set ?r" by (simp add: pageTypes_all)
  then obtain i where i: "i < length ?r" "?r ! i = t"
    by (meson in_set_conv_nth)
  show ?thesis
  proof (cases "i = 0")
    case True
    with i show ?thesis by simp
  next
    case False
    with i have "0 < i" by simp
    with ranking_sorted_desc [of g pageTypes] i
    have "g (?r ! i) \<le> g (?r ! 0)"
      by (auto simp: sorted_wrt_iff_nth_less)
    with i show ?thesis by simp
  qed
qed

lemma no_bonus: "specialElementBonus t noSpecialElements = 0"
  by (cases t) (simp_all add: specialElementBonus_def noSpecialElements_def)

lemma emptyPage_noSignatureMatch: "noSignatureMatch emptyPage"
  by (simp add: noSignatureMatch_def emptyPage_def countMatches_def countPatternMatches_def)

lemma hotelPage_noSignatureMatch: "noSignatureMatch hotelPage"
proof -
  have "countMatches (title hotelPage) (sigKeywords (patterns t)) = 0
        \<and> countPatternMatches (title hotelPage) (titlePatterns (patterns t)) = 0
        \<and> countMatches (metaDescription hotelPage) (sigKeywords (patterns t)) = 0
        \<and> countMatches (join (headings hotelPage) '' '') (sigKeywords (patterns t)) = 0
        \<and> countPatternMatches (url hotelPage) (urlPatterns (patterns t)) = 0
        \<and> countMatches (bodyText hotelPage) (sigKeywords (patterns t)) = 0
        \<and> countPatternMatches (bodyText hotelPage) (contentPatterns (patterns t)) = 0" for t
    by (cases t)
      (simp_all add: hotelPage_def countMatches_def countPatternMatches_def
         toLowerCase_def lowerChar_def)
  then show ?thesis
    unfolding noSignatureMatch_def by blast
qed

lemma finalScore_hotelPage:
  "finalScore hotelPage = (\<lambda>t. case t of LocalBusiness \<Rightarrow> 1 | _ \<Rightarrow> 0)"
proof
  fix t
  have "calculateSingleTypeScore t hotelPage = (case t of LocalBusiness \<Rightarrow> 1 | _ \<Rightarrow> 0)"
    by (cases t)
      (simp_all add: calculateSingleTypeScore_def hotelPage_def Let_def weights_def
         countMatches_def countPatternMatches_def toLowerCase_def lowerChar_def)
  then show "finalScore hotelPage t = (case t of LocalBusiness \<Rightarrow> 1 | _ \<Rightarrow> 0)"
    by (simp add: finalScore_def hotelPage_def no_bonus)
qed

lemma ranking_hotelPage:
  "sort_key (\<lambda>t. - finalScore hotelPage t) pageTypes
     = [LocalBusiness, Article, Product, Recipe, Event, FAQ, HowTo, Review, JobPosting, Course]"
  by (simp add: finalScore_hotelPage pageTypes_def)

lemma ranking_shopPage:
  "sort_key (\<lambda>t. - finalScore shopPage t) pageTypes
     = [Product, Review, Article, LocalBusiness, Recipe, Event, FAQ, HowTo, JobPosting, Course]"
  by (simp add: finalScore_shopPage pageTypes_def)

lemma ranking_tiePage:
  "sort_key (\<lambda>t. - finalScore tiePage t) pageTypes
     = [Event, JobPosting, Article, Product, LocalBusiness, Recipe, FAQ, HowTo, Review, Course]"
  by (simp add: finalScore_tiePage pageTypes_def)

text \<open>
  C8. On a run without exception there is a ranking of all page types by descending
  final score such that the primary type is its first entry, the secondary types are its
  second and third entries, and the confidence is the score recorded for the primary
  type in \<^verbatim>\<open>allScores\<close>, unscaled; no type scores higher.
\<close>

theorem analyzePage_ranking:
  "\<exists>ranking.
      length ranking = 10 \<and> distinct ranking \<and> set ranking = set pageTypes
    \<and> sorted_wrt (\<lambda>a b. orZero (map_of (allScores (analyzePage (Inr pd))) b)
                       \<le> orZero (map_of (allScores (analyzePage (Inr pd))) a)) ranking
    \<and> primaryType (analyzePage (Inr pd)) = Some (ranking ! 0)
    \<and> secondaryTypes (analyzePage (Inr pd)) = [ranking ! 1, ranking ! 2]
    \<and> confidence (analyzePage (Inr pd))
        = orZero (map_of (allScores (analyzePage (Inr pd))) (ranking ! 0))
    \<and> (\<forall>t. orZero (map_of (allScores (analyzePage (Inr pd))) t)
            \<le> confidence (analyzePage (Inr pd)))"
proof -
  let ?r = "sort_key (\<lambda>t. - finalScore pd t) pageTypes"
  have "length ?r = 10"
    by (rule ranking_length)
  moreover have "distinct ?r" "set ?r = set pageTypes"
    by (simp_all add: pageTypes_distinct)
  moreover have "sorted_wrt (\<lambda>a b. finalScore pd b \<le> finalScore pd a) ?r"
    by (rule ranking_sorted_desc)
  moreover have "\<forall>t. finalScore pd t \<le> finalScore pd (?r ! 0)"
    using ranking_head_max [of "finalScore pd"] by blast
  ultimately show ?thesis
    unfolding scoreOf_allScores
    using analyzePage_success(2,3,4) [of pd] by (intro exI [of _ ?r]) simp
qed

theorem analyzePage_ranking_witness:
  "primaryType (analyzePage (Inr shopPage)) = Some Product
   \<and> secondaryTypes (analyzePage (Inr shopPage)) = [Review, Article]
   \<and> confidence (analyzePage (Inr shopPage)) = 15
   \<and> (\<forall>t. orZero (map_of (allScores (analyzePage (Inr shopPage))) t) \<le> 15)"
proof -
  have eval: "primaryType (analyzePage (Inr shopPage)) = Some Product"
    "secondaryTypes (analyzePage (Inr shopPage)) = [Review, Article]"
    "confidence (analyzePage (Inr shopPage)) = 15"
    using analyzePage_success(2,3,4) [of shopPage]
    by (simp_all add: ranking_shopPage) (simp add: finalScore_shopPage)
  from analyzePage_ranking [of shopPage]
  have "\<forall>t. orZero (map_of (allScores (analyzePage (Inr shopPage))) t)
            \<le> confidence (analyzePage (Inr shopPage))"
    by blast
  with eval show ?thesis by simp
qed

text \<open>
  The parts of the default behaviour that the code does have. When every base score is 0
  and no special element is detected, as for a document without title and body text, the
  classification is Article with confidence 0. When the extraction throws, the result is
  the same default, so no exception leaves \<^verbatim>\<open>analyzePage\<close>. In every run without
  exception the primary type is the first type in table order among those with the
  highest final score.
\<close>

lemma analyzePage_zero_scores:
  assumes "\<forall>t. calculateSingleTypeScore t pd = 0"
    and "specialElements pd = noSpecialElements"
  shows "primaryType (analyzePage (Inr pd)) = Some Article"
    and "confidence (analyzePage (Inr pd)) = 0"
proof -
  let ?r = "sort_key (\<lambda>t. - finalScore pd t) pageTypes"
  have zero: "finalScore pd t = 0" for t
    using assms by (simp add: finalScore_def no_bonus)
  then have "?r = pageTypes"
    by (simp add: pageTypes_def)
  then have "?r ! 0 = Article"
    by (simp add: pageTypes_def)
  with analyzePage_success(2,4) [of pd] zero
  show "primaryType (analyzePage (Inr pd)) = Some Article"
    and "confidence (analyzePage (Inr pd)) = 0"
    by simp_all
qed

lemma analyzePage_emptyPage:
  "primaryType (analyzePage (Inr emptyPage)) = Some Article"
  "confidence (analyzePage (Inr emptyPage)) = 0"
proof -
  have "\<forall>t. calculateSingleTypeScore t emptyPage = 0"
    by (simp add: base_empty_text emptyPage_def)
  moreover have "specialElements emptyPage = noSpecialElements"
    by (simp add: emptyPage_def)
  ultimately show "primaryType (analyzePage (Inr emptyPage)) = Some Article"
    and "confidence (analyzePage (Inr emptyPage)) = 0"
    by (rule analyzePage_zero_scores)+
qed

lemma analyzePage_error_default:
  "primaryType (analyzePage (Inl err)) = Some Article"
  "confidence (analyzePage (Inl err)) = 0"
  by (simp_all add: analyzePage_def)

lemma analyzePage_first_maximum:
  "\<exists>p before after.
      primaryType (analyzePage (Inr pd)) = Some p
    \<and> pageTypes = before @ p # after
    \<and> (\<forall>t \<in> set before. orZero (map_of (allScores (analyzePage (Inr pd))) t)
                            < orZero (map_of (allScores (analyzePage (Inr pd))) p))
    \<and> (\<forall>t \<in> set after. orZero (map_of (allScores (analyzePage (Inr pd))) t)
                            \<le> orZero (map_of (allScores (analyzePage (Inr pd))) p))"
proof -
  let ?r = "sort_key (\<lambda>t. - finalScore pd t) pageTypes"
  have "length ?r = 10" by (rule ranking_length)
  then obtain p rest where shape: "?r = p # rest"
    by (cases ?r) auto
  from sort_key_head_first_min [OF shape] obtain before after where
    split: "pageTypes = before @ p # after"
    and lt: "\<forall>t \<in> set before. finalScore pd t < finalScore pd p"
    and le: "\<forall>t \<in> set after. finalScore pd t \<le> finalScore pd p"
    by auto
  have prim: "primaryType (analyzePage (Inr pd)) = Some p"
    using analyzePage_success(2) [of pd] shape by simp
  show ?thesis
    unfolding scoreOf_allScores using prim split lt le by blast
qed

lemma analyzePage_tiePage:
  "primaryType (analyzePage (Inr tiePage)) = Some Event"
  "orZero (map_of (allScores (analyzePage (Inr tiePage))) Event) = 12"
  "orZero (map_of (allScores (analyzePage (Inr tiePage))) JobPosting) = 12"
proof -
  show "primaryType (analyzePage (Inr tiePage)) = Some Event"
    using analyzePage_success(2) [of tiePage] by (simp add: ranking_tiePage)
  show "orZero (map_of (allScores (analyzePage (Inr tiePage))) Event) = 12"
    "orZero (map_of (allScores (analyzePage (Inr tiePage))) JobPosting) = 12"
    by (simp_all add: scoreOf_allScores finalScore_tiePage)
qed

text \<open>
  C4. The specification wants every document in which no signature keyword or pattern
  matches and no special element is detected to be classified as Article with confidence
  0. A content pattern matches when the body text contains it. The code counts the content
  patterns as it counts keywords, ignoring case, so that the pattern TEL is found inside
  the word hotel. For a document whose body is that word, nothing matches by the rules of
  the specification and no special element is detected, yet the classification is
  LocalBusiness with confidence 1.
\<close>

theorem unmatched_page_classified_local_business:
  "noSignatureMatch hotelPage
   \<and> specialElements hotelPage = noSpecialElements
   \<and> primaryType (analyzePage (Inr hotelPage)) = Some LocalBusiness
   \<and> confidence (analyzePage (Inr hotelPage)) = 1"
proof (intro conjI)
  show "noSignatureMatch hotelPage"
    by (rule hotelPage_noSignatureMatch)
  show "specialElements hotelPage = noSpecialElements"
    by (simp add: hotelPage_def)
  show "primaryType (analyzePage (Inr hotelPage)) = Some LocalBusiness"
    using analyzePage_success(2) [of hotelPage] by (simp add: ranking_hotelPage)
  show "confidence (analyzePage (Inr hotelPage)) = 1"
    using analyzePage_success(4) [of hotelPage]
    by (simp add: ranking_hotelPage) (simp add: finalScore_hotelPage)
qed

section \<open>Recommendations\<close>

text \<open>
  C5. In every entry of the recommendation catalog the primary, secondary and optional
  schema lists are pairwise disjoint.
\<close>

theorem catalog_tiers_disjoint:
  "\<forall>(name, r) \<in> set recommendations. tiersDisjoint r"
  by (simp add: recommendations_def tiersDisjoint_def)

theorem catalog_tiers_disjoint_witness:
  "(''Article'', articleTiers) \<in> set recommendations \<and> tiersDisjoint articleTiers"
proof -
  have h: "(''Article'', articleTiers) \<in> set recommendations"
    by (simp add: recommendations_def articleTiers_def)
  with catalog_tiers_disjoint show ?thesis by blast
qed

lemma catalog_page_types:
  "map fst recommendations
     = [''Article'', ''Product'', ''LocalBusiness'', ''Recipe'', ''Event'', ''FAQ'', ''HowTo'',
        ''Review'', ''JobPosting'', ''Course'']"
  by (simp add: recommendations_def)

text \<open>
  C7. The expected benefits are: rich-snippet probability min(90, 30 c + 15 h), ranking
  improvement min(20, 5 c + 3 h), click-through improvement min(25, 8 c + 5 h), where c is
  the number of missing items and h the number of improvements; and local-search
  visibility 40 when some missing item is LocalBusiness or Organization, else 10.
\<close>

theorem expected_benefits_formula:
  "calculateExpectedBenefits pl =
     \<lparr> richSnippets = min 90 (30 * length (missing pl) + 15 * length (improvements pl)),
       searchRanking = Some (min 20 (5 * length (missing pl) + 3 * length (improvements pl))),
       clickThroughRate = Some (min 25 (8 * length (missing pl) + 5 * length (improvements pl))),
       localSearch = Some (if \<exists>item \<in> set (missing pl).
                                 schema item = ''LocalBusiness'' \<or> schema item = ''Organization''
                           then 40 else 10) \<rparr>"
  by (simp add: calculateExpectedBenefits_def Let_def list_ex_iff mult.commute)

theorem expected_benefits_formula_witness:
  "calculateExpectedBenefits
     (prioritizeRecommendations
        \<lparr> primary = [''LocalBusiness''],
          secondary = [''Organization'', ''PostalAddress'', ''ContactPoint''],
          optional = [] \<rparr>)
   = \<lparr> richSnippets = 75, searchRanking = Some 14, clickThroughRate = Some 23,
       localSearch = Some 40 \<rparr>"
  using expected_benefits_formula
    [of "prioritizeRecommendations
          \<lparr> primary = [''LocalBusiness''],
            secondary = [''Organization'', ''PostalAddress'', ''ContactPoint''],
            optional = [] \<rparr>"]
  by (simp add: prioritizeRecommendations_def)

lemma schema_prioritize:
  "map schema (missing (prioritizeRecommendations m)) = primary m"
  "map schema (improvements (prioritizeRecommendations m)) = secondary m"
  "map schema (optionalItems (prioritizeRecommendations m)) = optional m"
  by (simp_all add: prioritizeRecommendations_def comp_def)

text \<open>
  What the filter of \<^const>\<open>findMissingSchemas\<close> does achieve: each list it returns is
  drawn from its tier, and holds no name that is an element of the set \<^verbatim>\<open>existing\<close>.
\<close>

lemma findMissingSchemas_sound:
  assumes "findMissingSchemas recs inventory = Inr m"
  shows "set (primary m) \<subseteq> set (primary recs)"
    and "set (secondary m) \<subseteq> set (secondary recs)"
    and "set (optional m) \<subseteq> set (optional recs)"
    and "existingTypes inventory = Inr existing \<Longrightarrow> JStr s \<in> set existing
         \<Longrightarrow> s \<notin> set (primary m) \<union> set (secondary m) \<union> set (optional m)"
  using assms by (auto simp: findMissingSchemas_def split: sum.splits)

text \<open>
  C1. The specification wants no recommended schema name to be an \<^verbatim>\<open>@type\<close> value of
  an inventory entry, any element of an array-valued \<^verbatim>\<open>@type\<close> included. The code
  reads only the first element of such an array. For an Article page whose JSON-LD block
  has the types WebPage and Article, Article is an \<^verbatim>\<open>@type\<close> value of the entry and is
  still listed as missing.
\<close>

theorem array_type_still_recommended:
  "JStr ''Article'' \<in> set (typeValues arrayTypedEntry)
   \<and> existingTypes arrayTypedInventory = Inr [JStr ''WebPage'']
   \<and> map schema (missing (res_recommendations
          (generateRecommendations (Some articleAnalysis) arrayTypedInventory)))
       = [''Article'', ''NewsArticle'', ''BlogPosting'']"
  by (simp add: typeValues_def arrayTypedEntry_def arrayTypedInventory_def articleAnalysis_def
        generateRecommendations_def getBaseRecommendations_def recommendations_def
        findMissingSchemas_def existingTypes_def entryType_def getProp_def isNullish_def
        prioritizeRecommendations_def Let_def orZero_def)

lemma entryType_bare:
  "''data'' \<notin> fst ` set props \<Longrightarrow> entryType (JObj props) = Inr JUndefined"
  by (simp add: entryType_def getProp_def isNullish_def Let_def map_of_eq_None_iff [THEN iffD2])

lemma mapEntries_bare:
  "\<forall>e \<in> set entries. \<exists>props. e = JObj props \<and> ''data'' \<notin> fst ` set props
   \<Longrightarrow> \<exists>ts. mapEntries entries = Inr ts \<and> filter truthy ts = []"
  by (induction entries) (auto simp: entryType_bare)

text \<open>
  C9. When the \<^verbatim>\<open>jsonLd\<close> array of the inventory holds the parsed JSON-LD objects
  themselves, without a \<^verbatim>\<open>data\<close> field, no existing schema is detected: the set of
  present names is empty, and the missing, improvement and optional lists are the whole
  primary, secondary and optional tiers of the classified page type.
\<close>

theorem bare_jsonld_detects_nothing:
  assumes "getProp inventory ''jsonLd'' = JArr entries"
    and "\<forall>e \<in> set entries. \<exists>props. e = JObj props \<and> ''data'' \<notin> fst ` set props"
    and "pa_primaryType pa = Some pt" and "pt \<noteq> []"
  shows "existingTypes inventory = Inr []
    \<and> map schema (missing (res_recommendations (generateRecommendations (Some pa) inventory)))
        = primary (getBaseRecommendations pt)
    \<and> map schema (improvements (res_recommendations (generateRecommendations (Some pa) inventory)))
        = secondary (getBaseRecommendations pt)
    \<and> map schema (optionalItems (res_recommendations (generateRecommendations (Some pa) inventory)))
        = optional (getBaseRecommendations pt)"
proof -
  from assms(1) have notnull: "\<not> isNullish inventory" "inventory \<noteq> JUndefined"
    by (auto simp: getProp_def isNullish_def)
  from mapEntries_bare [OF assms(2)] obtain ts where
    ts: "mapEntries entries = Inr ts" "filter truthy ts = []"
    by blast
  have ex: "existingTypes inventory = Inr []"
    using assms(1) notnull ts by (simp add: existingTypes_def)
  then have fm: "findMissingSchemas recs inventory = Inr recs" for recs
    by (simp add: findMissingSchemas_def)
  show ?thesis
    using ex fm assms(3,4) notnull
    by (simp add: generateRecommendations_def Let_def schema_prioritize)
qed

theorem bare_jsonld_detects_nothing_witness:
  "getProp bareInventory ''jsonLd''
     = JArr [JObj [(''@context'', JStr ''https://schema.org''), (''@type'', JStr ''Article''),
                   (''headline'', JStr ''Hello'')]]
   \<and> map schema (missing (res_recommendations
          (generateRecommendations (Some articleAnalysis) bareInventory)))
       = [''Article'', ''NewsArticle'', ''BlogPosting'']
   \<and> map schema (improvements (res_recommendations
          (generateRecommendations (Some articleAnalysis) bareInventory)))
       = [''Organization'', ''Person'', ''BreadcrumbList'']
   \<and> map schema (optionalItems (res_recommendations
          (generateRecommendations (Some articleAnalysis) bareInventory)))
       = [''Comment'', ''Rating'', ''Review'']"
proof -
  have h1: "getProp bareInventory ''jsonLd''
     = JArr [JObj [(''@context'', JStr ''https://schema.org''), (''@type'', JStr ''Article''),
                   (''headline'', JStr ''Hello'')]]"
    by (simp add: bareInventory_def getProp_def)
  have h2: "\<forall>e \<in> set [JObj [(''@context'', JStr ''https://schema.org''),
                             (''@type'', JStr ''Article''), (''headline'', JStr ''Hello'')]].
              \<exists>props. e = JObj props \<and> ''data'' \<notin> fst ` set props"
    by simp
  have h3: "pa_primaryType articleAnalysis = Some ''Article''" and h4: "''Article'' \<noteq> []"
    by (simp_all add: articleAnalysis_def)
  have tiers: "getBaseRecommendations ''Article'' = articleTiers"
    by (simp add: getBaseRecommendations_def recommendations_def articleTiers_def)
  from bare_jsonld_detects_nothing [OF h1 h2 h3 h4] h1 show ?thesis
    by (simp add: tiers articleTiers_def)
qed

section \<open>Templates\<close>

lemma cleanSchema_append: "cleanSchema (xs @ ys) = cleanSchema xs @ cleanSchema ys"
  by (induction xs rule: cleanSchema.induct) (auto simp: Let_def)

text \<open>
  C10. Cleaning a schema twice gives the same result as cleaning it once.
\<close>

theorem cleanSchema_idempotent: "cleanSchema (cleanSchema x) = cleanSchema x"
  by (induction x rule: cleanSchema.induct) (auto simp: Let_def cleanSchema_append)

theorem cleanSchema_idempotent_witness:
  "cleanSchema sampleSchema
     = [(''@type'', JStr ''Person''),
        (''affiliation'', JObj [(''@type'', JStr ''Organization''), (''name'', JStr ''{{organization}}'')]),
        (''sameAs'', JArr [JStr ''https://example.com/me''])]
   \<and> cleanSchema (cleanSchema sampleSchema) = cleanSchema sampleSchema"
  using cleanSchema_idempotent [of sampleSchema]
  by (simp add: sampleSchema_def keepItem_def)

text \<open>
  The Organization template filled for a page with title, description and URL: the
  entries whose placeholder carries the name of their own key are removed, the other
  placeholders stay.
\<close>

lemma fillTemplate_organization_example:
  "fillTemplate getOrganizationTemplate
     (extractBasicData ''Acme'' ''About us'' ''https://example.com/'')
   = [(''@context'', JStr ''https://schema.org''),
      (''@type'', JStr ''Organization''),
      (''name'', JStr ''{{organizationName}}''),
      (''url'', JStr ''{{website}}''),
      (''description'', JStr ''About us''),
      (''address'', JObj [(''@type'', JStr ''PostalAddress''),
                          (''addressLocality'', JStr ''{{city}}''),
                          (''addressRegion'', JStr ''{{state}}''),
                          (''addressCountry'', JStr ''JP'')]),
      (''contactPoint'', JObj [(''@type'', JStr ''ContactPoint''),
                               (''telephone'', JStr ''{{phone}}''),
                               (''contactType'', JStr ''customer service'')]),
      (''sameAs'', JStr ''{{socialProfiles}}'')]"
  by (simp add: fillTemplate_def getOrganizationTemplate_def extractBasicData_def fillString_def)

text \<open>
  C3. The specification wants the object returned by \<^verbatim>\<open>fillTemplate\<close> to hold no
  string of the form \<^verbatim>\<open>{{...}}\<close>. The cleanup drops a string value only when it equals
  the placeholder named after its own key, where the array branch drops every string
  holding \<^verbatim>\<open>{{\<close>. For the Organization template, which has a template in the catalog
  and for which only title, description and URL are extracted, the result keeps
  \<^verbatim>\<open>{{organizationName}}\<close> under the key \<^verbatim>\<open>name\<close>, whatever the title,
  description and URL of the page are.
\<close>

theorem organization_placeholder_survives:
  "getTemplate ''Organization'' = Some getOrganizationTemplate
   \<and> map_of (fillTemplate getOrganizationTemplate (extractBasicData t d u)) ''name''
       = Some (JStr ''{{organizationName}}'')
   \<and> containsPlaceholder (JObj (fillTemplate getOrganizationTemplate (extractBasicData t d u)))"
proof (intro conjI)
  show "getTemplate ''Organization'' = Some getOrganizationTemplate"
    by (simp add: getTemplate_def)
  show "map_of (fillTemplate getOrganizationTemplate (extractBasicData t d u)) ''name''
       = Some (JStr ''{{organizationName}}'')"
    by (simp add: fillTemplate_def getOrganizationTemplate_def extractBasicData_def fillString_def)
  show "containsPlaceholder (JObj (fillTemplate getOrganizationTemplate (extractBasicData t d u)))"
    by (simp add: fillTemplate_def getOrganizationTemplate_def extractBasicData_def fillString_def
          matchesPlaceholder_def)
qed

end
